theory Spec2Isabelle
  imports Main "HOL-Library.Word"
begin

section \<open>Route table and matcher (application/application.ts)\<close>

text \<open>
  Paths are JavaScript strings; they are modelled as \<open>string\<close>.  \<open>split_on\<close> is
  \<open>String.prototype.split\<close> with a one-character separator: it keeps empty pieces, so
  \<open>"/a/".split("/")\<close> is \<open>["", "a", ""]\<close> and \<open>"".split("/")\<close> is \<open>[""]\<close>.
\<close>

fun split_on :: "char \<Rightarrow> string \<Rightarrow> string list" where
  "split_on c [] = [[]]"
| "split_on c (x # xs) =
     (if x = c then [] # split_on c xs
      else (case split_on c xs of [] \<Rightarrow> [[x]] | w # ws \<Rightarrow> (x # w) # ws))"

text \<open>\<open>path.split("/").filter(Boolean)\<close>: the non-empty pieces.\<close>

definition segments :: "string \<Rightarrow> string list" where
  "segments path = filter (\<lambda>s. s \<noteq> []) (split_on CHR ''/'' path)"

text \<open>\<open>seg.startsWith(":")\<close> and \<open>seg.slice(1)\<close>.\<close>

definition startsWithColon :: "string \<Rightarrow> bool" where
  "startsWithColon seg = (case seg of [] \<Rightarrow> False | c # _ \<Rightarrow> c = CHR '':'')"

definition slice1 :: "string \<Rightarrow> string" where
  "slice1 seg = drop 1 seg"

text \<open>
  \<open>params[paramName] = requestSegment\<close> on the plain object \<open>params\<close>, whose own
  properties are the map.  The name \<open>__proto__\<close> reaches the setter that \<open>Object.prototype\<close>
  has under that name, which ignores a value that is not an object: nothing is stored.
\<close>

definition assign_param :: "(string \<rightharpoonup> string) \<Rightarrow> string \<Rightarrow> string \<Rightarrow> (string \<rightharpoonup> string)" where
  "assign_param params paramName v =
     (if paramName = ''__proto__'' then params else params(paramName \<mapsto> v))"

text \<open>
  The loop of \<open>Application.matchRoute\<close> over the index \<open>i\<close>.  The two lists are walked
  together; a request segment that is missing (\<open>requestSegments[i]\<close> is \<open>undefined\<close>) or
  a segment that is the empty string makes the guard \<open>!routeSegment || !requestSegment\<close>
  true and the match fails.  \<open>params\<close> holds the own properties of the object built so far.
\<close>

fun matchRoute_loop ::
  "string list \<Rightarrow> string list \<Rightarrow> (string \<rightharpoonup> string) \<Rightarrow> (string \<rightharpoonup> string) option" where
  "matchRoute_loop [] requestSegments params = Some params"
| "matchRoute_loop (routeSegment # rs) [] params = None"
| "matchRoute_loop (routeSegment # rs) (requestSegment # qs) params =
     (if routeSegment = [] \<or> requestSegment = [] then None
      else if startsWithColon routeSegment
        then matchRoute_loop rs qs (assign_param params (slice1 routeSegment) requestSegment)
      else if routeSegment \<noteq> requestSegment then None
      else matchRoute_loop rs qs params)"

text \<open>\<open>Application.matchRoute(routePath, requestPath)\<close>; \<open>None\<close> is \<open>null\<close>.\<close>

definition matchRoute :: "string \<Rightarrow> string \<Rightarrow> (string \<rightharpoonup> string) option" where
  "matchRoute routePath requestPath =
     (let routeSegments = segments routePath;
          requestSegments = segments requestPath
      in if length routeSegments \<noteq> length requestSegments then None
         else matchRoute_loop routeSegments requestSegments Map.empty)"


section \<open>JavaScript values, thrown values and effects\<close>

text \<open>
  The values that flow through the pipeline.  \<open>Num\<close> is a number that is a 32-bit
  integer (each of them is a number of the language, exactly).  \<open>Rec\<close> is a plain object
  whose properties are strings (route parameters, query parameters, header maps) and \<open>Obj\<close>
  any other plain object, each given by its own properties.  \<open>Fun\<close> is a function, known
  by the text that \<open>String(f)\<close> gives for it.  \<open>RawRequest\<close> is the request object itself
  and \<open>ResponseProxy\<close> the object \<open>ParamResolver.createResponseProxy\<close> builds.
\<close>

datatype jsvalue =
    Undefined
  | Null
  | Bool bool
  | Num "32 word"
  | Str string
  | Obj "(string \<times> jsvalue) list"
  | Rec "string \<rightharpoonup> string"
  | Fun string
  | RawRequest
  | ResponseProxy

text \<open>JavaScript truthiness (\<open>!!v\<close>).\<close>

fun truthy :: "jsvalue \<Rightarrow> bool" where
  "truthy Undefined = False"
| "truthy Null = False"
| "truthy (Bool b) = b"
| "truthy (Num n) = (n \<noteq> 0)"
| "truthy (Str s) = (s \<noteq> [])"
| "truthy (Obj kvs) = True"
| "truthy (Rec m) = True"
| "truthy (Fun t) = True"
| "truthy RawRequest = True"
| "truthy ResponseProxy = True"

text \<open>
  \<open>v.message\<close> for a value \<open>v\<close> that is neither \<open>null\<close> nor \<open>undefined\<close>: the own
  property of a plain object, and \<open>undefined\<close> without it, since no prototype of the
  language (and neither the request nor the response proxy) has a member of that name.
\<close>

fun get_message :: "jsvalue \<Rightarrow> jsvalue" where
  "get_message (Obj kvs) = (case map_of kvs ''message'' of None \<Rightarrow> Undefined | Some v \<Rightarrow> v)"
| "get_message (Rec m) = (case m ''message'' of None \<Rightarrow> Undefined | Some s \<Rightarrow> Str s)"
| "get_message v = Undefined"

text \<open>
  Thrown values.  \<open>HttpException message status\<close> is an instance of \<open>HttpException\<close>
  (guards/guard.interface.ts) or of a subclass, its status a 32-bit integer;
  \<open>Error name message\<close> is any other instance of \<open>Error\<close>, those the host itself throws
  (\<open>TypeError\<close>, \<open>RangeError\<close>, \<open>ReferenceError\<close>) included, whose message text is the
  host's; \<open>Thrown v\<close> is a thrown value that is not an \<open>Error\<close>.
\<close>

datatype exn =
    HttpException string "32 word"
  | Error string string
  | Thrown jsvalue

text \<open>
  String literals of the source that are not ASCII are kept as their UTF-8 bytes.
\<close>

definition msg_guard_failed :: string where
  "msg_guard_failed = [CHR 0xE5, CHR 0xAE, CHR 0x88, CHR 0xE5, CHR 0x8D, CHR 0xAB, CHR 0xE9,
     CHR 0xAA, CHR 0x8C, CHR 0xE8, CHR 0xAF, CHR 0x81, CHR 0xE5, CHR 0xA4, CHR 0xB1, CHR 0xE8,
     CHR 0xB4, CHR 0xA5]"

definition msg_access_denied :: string where
  "msg_access_denied = [CHR 0xE8, CHR 0xAE, CHR 0xBF, CHR 0xE9, CHR 0x97, CHR 0xAE, CHR 0xE8,
     CHR 0xA2, CHR 0xAB, CHR 0xE6, CHR 0x8B, CHR 0x92, CHR 0xE7, CHR 0xBB, CHR 0x9D]"

definition msg_internal_error :: string where
  "msg_internal_error = [CHR 0xE5, CHR 0x86, CHR 0x85, CHR 0xE9, CHR 0x83, CHR 0xA8, CHR 0xE6,
     CHR 0x9C, CHR 0x8D, CHR 0xE5, CHR 0x8A, CHR 0xA1, CHR 0xE5, CHR 0x99, CHR 0xA8, CHR 0xE9,
     CHR 0x94, CHR 0x99, CHR 0xE8, CHR 0xAF, CHR 0xAF]"

definition msg_unknown_error :: string where
  "msg_unknown_error = [CHR 0xE6, CHR 0x9C, CHR 0xAA, CHR 0xE7, CHR 0x9F, CHR 0xA5, CHR 0xE9,
     CHR 0x94, CHR 0x99, CHR 0xE8, CHR 0xAF, CHR 0xAF]"

definition msg_service_prefix :: string where
  "msg_service_prefix = [CHR 0xE6, CHR 0x9C, CHR 0x8D, CHR 0xE5, CHR 0x8A, CHR 0xA1, CHR 0x20]"

definition msg_service_suffix :: string where
  "msg_service_suffix = [CHR 0x20, CHR 0xE6, CHR 0x9C, CHR 0xAA, CHR 0xE6, CHR 0x89, CHR 0xBE,
     CHR 0xE5, CHR 0x88, CHR 0xB0]"

text \<open>
  User code (guards, pipes, handlers, interceptors, filters) runs with side effects and may
  throw.  A computation takes the state of the world \<open>'w\<close> it can observe and change, and
  gives back either the thrown value or its result, with the new state.  Awaiting a promise
  is sequencing; console output is left out.
\<close>

type_synonym ('w, 'a) io = "'w \<Rightarrow> (exn + 'a) \<times> 'w"

definition io_return :: "'a \<Rightarrow> ('w, 'a) io" where
  "io_return x = (\<lambda>w. (Inr x, w))"

definition io_bind :: "('w, 'a) io \<Rightarrow> ('a \<Rightarrow> ('w, 'b) io) \<Rightarrow> ('w, 'b) io" where
  "io_bind m f = (\<lambda>w. case m w of (Inl e, w') \<Rightarrow> (Inl e, w') | (Inr x, w') \<Rightarrow> f x w')"

text \<open>\<open>try { m } catch (e) { h e }\<close>.\<close>

definition io_catch :: "('w, 'a) io \<Rightarrow> (exn \<Rightarrow> ('w, 'a) io) \<Rightarrow> ('w, 'a) io" where
  "io_catch m h = (\<lambda>w. case m w of (Inl e, w') \<Rightarrow> h e w' | (Inr x, w') \<Rightarrow> (Inr x, w'))"

text \<open>Lifting a pure step that may throw.\<close>

definition io_of :: "exn + 'a \<Rightarrow> ('w, 'a) io" where
  "io_of r = (\<lambda>w. (r, w))"

text \<open>
  A filter, pipe or interceptor is declared as a class or given as an instance.  A class is
  instantiated through the container, \<open>container.resolve(C)\<close>, and when that throws by
  \<open>new C()\<close>; \<open>OfClass\<close> carries what the two attempts end in: the instance, or the value
  the second attempt throws.
\<close>

datatype 'a provider_def = OfInstance 'a | OfClass "exn + 'a"

text \<open>
  Instantiation inside \<open>try { ... } catch { log }\<close> (\<open>GuardResolver.resolveGuards\<close>,
  \<open>FilterResolver.resolveFilters\<close>): a definition that cannot be instantiated is skipped.
\<close>

fun instantiate_skipping :: "'a provider_def list \<Rightarrow> 'a list" where
  "instantiate_skipping [] = []"
| "instantiate_skipping (OfInstance x # ds) = x # instantiate_skipping ds"
| "instantiate_skipping (OfClass (Inr x) # ds) = x # instantiate_skipping ds"
| "instantiate_skipping (OfClass (Inl e) # ds) = instantiate_skipping ds"

text \<open>
  Instantiation by \<open>Array.prototype.map\<close> with no outer \<open>catch\<close> (\<open>getGlobalGuards\<close>,
  \<open>getGlobalFilters\<close>, \<open>PipeResolver.createPipeInstances\<close>): the first definition that
  cannot be instantiated throws.
\<close>

fun instantiate_all :: "'a provider_def list \<Rightarrow> exn + 'a list" where
  "instantiate_all [] = Inr []"
| "instantiate_all (OfInstance x # ds) =
     (case instantiate_all ds of Inl e \<Rightarrow> Inl e | Inr xs \<Rightarrow> Inr (x # xs))"
| "instantiate_all (OfClass (Inr x) # ds) =
     (case instantiate_all ds of Inl e \<Rightarrow> Inl e | Inr xs \<Rightarrow> Inr (x # xs))"
| "instantiate_all (OfClass (Inl e) # ds) = Inl e"


section \<open>The request and the response of the host\<close>

text \<open>
  The request is an object of the host.  The model keeps what the pipeline reads from it:
  \<^item> \<open>req_url\<close>: what \<open>new URL(request.url)\<close> gives, its \<open>pathname\<close> and the entries of
    its \<open>searchParams\<close>; \<open>None\<close> when the constructor throws a \<open>TypeError\<close>;
  \<^item> \<open>req_method\<close>: \<open>request.method\<close>;
  \<^item> \<open>req_headers\<close>: \<open>request.headers.entries()\<close>, one entry per header name, the names in
    lower case as the host keeps them;
  \<^item> \<open>req_params\<close>: \<open>request.params\<close>, the route parameters the server loop attaches;
  \<^item> \<open>req_json\<close>: the own properties of the object \<open>await request.json()\<close> gives,
    \<open>None\<close> when it rejects or gives \<open>null\<close> (either way the body read is \<open>null\<close>); a
    body that is a JSON array or a JSON string, number or truth value is not modelled;
  \<^item> \<open>req_formData\<close>: the entries of \<open>await request.formData()\<close>, \<open>None\<close> when it rejects.
\<close>

record url =
  pathname :: string
  searchParams :: "(string \<times> string) list"

record request =
  req_url :: "url option"
  req_method :: string
  req_headers :: "(string \<times> string) list"
  req_params :: "(string \<rightharpoonup> string) option"
  req_json :: "(string \<times> jsvalue) list option"
  req_formData :: "(string \<times> string) list option"

text \<open>\<open>new URL(request.url)\<close>.\<close>

definition new_URL :: "request \<Rightarrow> exn + url" where
  "new_URL request =
     (case req_url request of
        None \<Rightarrow> Inl (Error ''TypeError'' ''Invalid URL'')
      | Some u \<Rightarrow> Inr u)"

text \<open>\<open>Object.fromEntries(entries)\<close>: a later entry overwrites an earlier one.\<close>

definition fromEntries :: "(string \<times> string) list \<Rightarrow> (string \<rightharpoonup> string)" where
  "fromEntries entries = foldl (\<lambda>m (k, v). m(k \<mapsto> v)) Map.empty entries"

text \<open>\<open>request.headers.get(name)\<close> for a lower-case name; \<open>None\<close> is \<open>null\<close>.\<close>

definition headers_get :: "request \<Rightarrow> string \<Rightarrow> string option" where
  "headers_get request name = map_of (req_headers request) name"

text \<open>\<open>s.toLowerCase()\<close> on ASCII letters.\<close>

definition lower_char :: "char \<Rightarrow> char" where
  "lower_char c =
     (let n = (of_char c :: nat) in if 65 \<le> n \<and> n \<le> 90 then char_of (n + 32) else c)"

definition toLowerCase :: "string \<Rightarrow> string" where
  "toLowerCase s = map lower_char s"

text \<open>\<open>s.includes(sub)\<close>.\<close>

fun starts_with :: "string \<Rightarrow> string \<Rightarrow> bool" where
  "starts_with s [] = True"
| "starts_with [] (c # sub) = False"
| "starts_with (d # s) (c # sub) = (d = c \<and> starts_with s sub)"

fun str_includes :: "string \<Rightarrow> string \<Rightarrow> bool" where
  "str_includes [] sub = (sub = [])"
| "str_includes (c # s) sub = (starts_with (c # s) sub \<or> str_includes s sub)"

text \<open>
  A \<open>Response\<close> of the host: its status, the value that was serialised into its body
  (\<open>JSON.stringify(v)\<close> is kept as \<open>v\<close>, a text body as \<open>Str\<close>) and its \<open>Content-Type\<close>
  header when the code sets one.
\<close>

record response =
  status :: int
  body :: jsvalue
  content_type :: "string option"

text \<open>
  What the host decides and the clock.  \<open>new Response(body, {status})\<close> throws a
  \<open>RangeError\<close> for a status the host does not accept (the Fetch standard accepts 200 to
  599); which statuses are accepted is the field \<open>valid_status\<close>.  \<open>now\<close> is what
  \<open>new Date().toISOString()\<close> reads.  \<open>function_text name\<close> is what \<open>String(f)\<close> gives
  for the built-in function \<open>f\<close> of that name.
\<close>

record host_env =
  valid_status :: "int \<Rightarrow> bool"
  now :: string
  function_text :: "string \<Rightarrow> string"

text \<open>
  The members of \<open>Object.prototype\<close>, which every plain object inherits: the functions of
  the language standard, and under \<open>__proto__\<close> the accessor that reads the prototype of
  the object, \<open>Object.prototype\<close> itself for a plain object (an object without enumerable
  properties of its own).
\<close>

definition object_prototype :: "host_env \<Rightarrow> (string \<rightharpoonup> jsvalue)" where
  "object_prototype env =
     map_of
       [(''constructor'', Fun (function_text env ''Object'')),
        (''__defineGetter__'', Fun (function_text env ''__defineGetter__'')),
        (''__defineSetter__'', Fun (function_text env ''__defineSetter__'')),
        (''hasOwnProperty'', Fun (function_text env ''hasOwnProperty'')),
        (''__lookupGetter__'', Fun (function_text env ''__lookupGetter__'')),
        (''__lookupSetter__'', Fun (function_text env ''__lookupSetter__'')),
        (''isPrototypeOf'', Fun (function_text env ''isPrototypeOf'')),
        (''propertyIsEnumerable'', Fun (function_text env ''propertyIsEnumerable'')),
        (''toString'', Fun (function_text env ''toString'')),
        (''valueOf'', Fun (function_text env ''valueOf'')),
        (''__proto__'', Obj []),
        (''toLocaleString'', Fun (function_text env ''toLocaleString''))]"

text \<open>
  \<open>obj[k]\<close> on a plain object with the own properties \<open>own\<close>: the own property, without
  it the member of \<open>Object.prototype\<close> of that name, and \<open>undefined\<close> without either.
\<close>

definition object_get :: "host_env \<Rightarrow> (string \<rightharpoonup> jsvalue) \<Rightarrow> string \<Rightarrow> jsvalue" where
  "object_get env own k =
     (case own k of
        Some v \<Rightarrow> v
      | None \<Rightarrow> (case object_prototype env k of Some v \<Rightarrow> v | None \<Rightarrow> Undefined))"

text \<open>The own properties of a plain object whose properties are strings.\<close>

definition string_properties :: "(string \<rightharpoonup> string) \<Rightarrow> (string \<rightharpoonup> jsvalue)" where
  "string_properties m = (\<lambda>k. case m k of None \<Rightarrow> None | Some s \<Rightarrow> Some (Str s))"

definition new_Response :: "host_env \<Rightarrow> jsvalue \<Rightarrow> int \<Rightarrow> string option \<Rightarrow> exn + response" where
  "new_Response env b st ct =
     (if valid_status env st
      then Inr \<lparr>status = st, body = b, content_type = ct\<rparr>
      else Inl (Error ''RangeError'' ''invalid status''))"

text \<open>The message a response body carries: the property \<open>message\<close> of the serialised value.\<close>

definition response_message :: "response \<Rightarrow> jsvalue" where
  "response_message r = get_message (body r)"


section \<open>Guard stage (guards/guard.interface.ts, decorators/guard.decorator.ts)\<close>

text \<open>
  \<open>HttpExecutionContext\<close>: the request, the controller class and the handler it was
  built for (the response slot is \<open>null\<close> in the dispatcher).
\<close>

record execution_context =
  ctx_request :: request
  ctx_class :: string
  ctx_handler :: string

text \<open>
  What \<open>await guard.canActivate(context)\<close> gives when it does not throw: a plain value, or
  a stream-style object (one with a \<open>subscribe\<close> function).  \<open>fromObservable\<close> turns the
  stream into a promise; \<open>stream_result\<close> is how that promise settles: with the first
  emitted value, with \<open>false\<close> on completion without a value, or rejected with the error.
\<close>

datatype stream_result = Emits jsvalue | Completes | Fails exn

datatype guard_return = Plain jsvalue | Stream stream_result

type_synonym 'w guard = "execution_context \<Rightarrow> ('w, guard_return) io"

record GuardResult =
  canActivate :: bool
  guard_error :: "exn option"

text \<open>Decimal digits, for \<open>String(n)\<close>.\<close>

fun digits_of :: "nat \<Rightarrow> string" where
  "digits_of n =
     (if n < 10 then [char_of (48 + n)]
      else digits_of (n div 10) @ [char_of (48 + n mod 10)])"

declare digits_of.simps [simp del]

text \<open>\<open>String(v)\<close>; for a number that is a 32-bit integer, its decimal digits.\<close>

fun js_String :: "jsvalue \<Rightarrow> string" where
  "js_String Undefined = ''undefined''"
| "js_String Null = ''null''"
| "js_String (Bool b) = (if b then ''true'' else ''false'')"
| "js_String (Num n) =
     (if sint n < 0 then CHR ''-'' # digits_of (nat (- sint n)) else digits_of (nat (sint n)))"
| "js_String (Str s) = s"
| "js_String (Obj kvs) = ''[object Object]''"
| "js_String (Rec m) = ''[object Object]''"
| "js_String (Fun t) = t"
| "js_String RawRequest = ''[object Request]''"
| "js_String ResponseProxy = ''[object Object]''"

text \<open>\<open>error instanceof Error ? error : new Error(String(error))\<close>.\<close>

fun as_Error :: "exn \<Rightarrow> exn" where
  "as_Error (Thrown v) = Error ''Error'' (js_String v)"
| "as_Error e = e"

definition rejected :: "exn \<Rightarrow> GuardResult" where
  "rejected e = \<lparr>canActivate = False, guard_error = Some e\<rparr>"

text \<open>
  \<open>GuardExecutor.canActivate(guards, context)\<close>: the guards run one after the other, in
  the order of the array; the first one that gives a falsy value, or throws, ends the loop.
  The function itself never throws.
\<close>

fun GuardExecutor_canActivate :: "'w guard list \<Rightarrow> execution_context \<Rightarrow> 'w \<Rightarrow> GuardResult \<times> 'w" where
  "GuardExecutor_canActivate [] ctx w = (\<lparr>canActivate = True, guard_error = None\<rparr>, w)"
| "GuardExecutor_canActivate (guard # guards) ctx w =
     (case guard ctx w of
        (Inl e, w') \<Rightarrow> (rejected (as_Error e), w')
      | (Inr (Stream (Fails e)), w') \<Rightarrow> (rejected (as_Error e), w')
      | (Inr (Stream Completes), w') \<Rightarrow> (rejected (Error ''Error'' msg_guard_failed), w')
      | (Inr (Stream (Emits v)), w') \<Rightarrow>
          (if \<not> truthy v then (rejected (Error ''Error'' msg_guard_failed), w')
           else GuardExecutor_canActivate guards ctx w')
      | (Inr (Plain v), w') \<Rightarrow>
          (if \<not> truthy v then (rejected (Error ''Error'' msg_guard_failed), w')
           else GuardExecutor_canActivate guards ctx w'))"

text \<open>
  The \<open>guards\<close> metadata holds guard classes.  \<open>GuardResolver\<close> instantiates each
  entry as a class, by \<open>container.resolve(GuardClass)\<close> and when that throws by
  \<open>new GuardClass()\<close>; an entry is given here by what the two attempts end in, the guard
  object or the value the second attempt throws (for an entry that is no constructor, a
  guard object for instance, that is a \<open>TypeError\<close>).
\<close>

type_synonym 'w guard_class = "exn + 'w guard"

text \<open>
  \<open>GuardResolver.resolveGuards\<close>: controller-level guards first, method-level guards
  after them; a guard that cannot be instantiated is logged and left out.
\<close>

definition resolveGuards :: "'w guard_class list \<Rightarrow> 'w guard_class list \<Rightarrow> 'w guard list" where
  "resolveGuards controllerGuards methodGuards =
     instantiate_skipping (map OfClass (controllerGuards @ methodGuards))"

text \<open>
  \<open>GuardResolver.getGlobalGuards\<close>, in the version of decorators/guard.decorator.ts
  that returns the array itself, which is what the dispatcher spreads into its guard list:
  each global guard class is instantiated, and one that cannot be instantiated throws.
\<close>

definition getGlobalGuards :: "'w guard_class list \<Rightarrow> exn + 'w guard list" where
  "getGlobalGuards globalGuards = instantiate_all (map OfClass globalGuards)"


section \<open>Parameter and pipe stage (decorators/param.decorator.ts, pipes/pipe-resolver.ts)\<close>

datatype ParamType = PARAM | QUERY | BODY | HEADERS | REQUEST | RESPONSE

text \<open>
  \<open>ParamMetadata\<close>: the index of the parameter, the kind of binding and its key.  The
  per-parameter pipes are kept under their own metadata key (\<open>param-pipes\<close>).
\<close>

record ParamMetadata =
  pm_index :: nat
  pm_type :: ParamType
  pm_key :: "string option"

text \<open>\<open>param.key\<close> as a condition: \<open>undefined\<close> and the empty string are falsy.\<close>

definition key_given :: "ParamMetadata \<Rightarrow> bool" where
  "key_given param = (case pm_key param of None \<Rightarrow> False | Some k \<Rightarrow> k \<noteq> [])"

definition the_key :: "ParamMetadata \<Rightarrow> string" where
  "the_key param = (case pm_key param of None \<Rightarrow> [] | Some k \<Rightarrow> k)"

text \<open>
  \<open>ArgumentMetadata\<close>; \<open>am_metatype\<close> is the entry of \<open>design:paramtypes\<close> for the
  parameter, by name, \<open>None\<close> when the entry is \<open>undefined\<close>.
\<close>

record ArgumentMetadata =
  am_type :: ParamType
  am_metatype :: "string option"
  am_data :: "string option"

type_synonym 'w pipe = "jsvalue \<Rightarrow> ArgumentMetadata \<Rightarrow> ('w, jsvalue) io"

text \<open>
  \<open>PipeResolver.executePipes(value, pipes, metadata)\<close>: each pipe receives what the
  previous one returned; a pipe that throws ends the loop with its error.
\<close>

fun executePipes :: "jsvalue \<Rightarrow> 'w pipe list \<Rightarrow> ArgumentMetadata \<Rightarrow> ('w, jsvalue) io" where
  "executePipes transformedValue [] metadata = io_return transformedValue"
| "executePipes transformedValue (pipe # pipes) metadata =
     io_bind (pipe transformedValue metadata) (\<lambda>v. executePipes v pipes metadata)"

text \<open>
  The pipes a handler's parameters go through: the global list of \<open>PipeResolver\<close>, the
  \<open>pipes\<close> metadata of the class and of the method, and the \<open>param-pipes\<close> metadata of the
  method by parameter index.
\<close>

record 'w pipe_metadata =
  globalPipes :: "'w pipe provider_def list"
  classPipes :: "'w pipe provider_def list"
  methodPipes :: "'w pipe provider_def list"
  paramPipes :: "nat \<Rightarrow> 'w pipe provider_def list"

text \<open>
  \<open>PipeResolver.createPipeInstances\<close>, \<open>getGlobalPipes\<close>, \<open>resolvePipes\<close> and
  \<open>resolveParameterPipes\<close>.  \<open>getGlobalPipes\<close> is the version of pipes/pipe-resolver.ts
  that returns the array itself, which is what \<open>ParamResolver.executeParameterPipes\<close>
  spreads into its pipe list; \<open>executePipes\<close> is the same in both versions of the file.
\<close>

definition createPipeInstances :: "'p provider_def list \<Rightarrow> exn + 'p list" where
  "createPipeInstances pipeDefs = instantiate_all pipeDefs"

definition getGlobalPipes :: "'w pipe_metadata \<Rightarrow> exn + 'w pipe list" where
  "getGlobalPipes pm = createPipeInstances (globalPipes pm)"

definition resolvePipes :: "'w pipe_metadata \<Rightarrow> exn + 'w pipe list" where
  "resolvePipes pm = createPipeInstances (classPipes pm @ methodPipes pm)"

definition resolveParameterPipes :: "'w pipe_metadata \<Rightarrow> nat \<Rightarrow> exn + 'w pipe list" where
  "resolveParameterPipes pm parameterIndex = createPipeInstances (paramPipes pm parameterIndex)"

text \<open>
  \<open>ParamResolver.executeParameterPipes\<close>.  The three lists are resolved in the order of
  the source (global, parameter, method) and merged as global, method, parameter.
\<close>

definition executeParameterPipes ::
  "jsvalue \<Rightarrow> 'w pipe_metadata \<Rightarrow> ParamMetadata \<Rightarrow> string option \<Rightarrow> ('w, jsvalue) io" where
  "executeParameterPipes v pm param paramType =
     io_bind (io_of (getGlobalPipes pm)) (\<lambda>globalPipes.
     io_bind (io_of (resolveParameterPipes pm (pm_index param))) (\<lambda>parameterPipes.
     io_bind (io_of (resolvePipes pm)) (\<lambda>methodPipes.
       let allPipes = globalPipes @ methodPipes @ parameterPipes
       in if allPipes = [] then io_return v
          else executePipes v allPipes
                 \<lparr>am_type = pm_type param, am_metatype = paramType, am_data = pm_key param\<rparr>)))"

text \<open>
  \<open>ParamResolver.extractPathParams\<close>: the parameters attached to the request, and
  without them a record that binds \<open>id\<close> when the last segment of the path is a number.
\<close>

definition is_digit :: "char \<Rightarrow> bool" where
  "is_digit c = (let n = (of_char c :: nat) in 48 \<le> n \<and> n \<le> 57)"

definition extractPathParams :: "string \<Rightarrow> request \<Rightarrow> (string \<rightharpoonup> string)" where
  "extractPathParams path request =
     (case req_params request of
        Some params \<Rightarrow> params
      | None \<Rightarrow>
          (let pathSegments = segments path
           in if pathSegments \<noteq> [] \<and> list_all is_digit (last pathSegments)
              then [''id'' \<mapsto> last pathSegments] else Map.empty))"

text \<open>
  The variable \<open>body\<close> of \<open>resolveParams\<close>: \<open>null\<close>, the object parsed from a JSON
  body, or the object made of the entries of a form body.
\<close>

datatype parsed_body =
    NullBody
  | JsonBody "(string \<times> jsvalue) list"
  | FormBody "string \<rightharpoonup> string"

text \<open>
  The request body as \<open>resolveParams\<close> parses it: only for POST, PUT and PATCH, by the
  content type; a parse that fails is logged and leaves \<open>null\<close>.
\<close>

definition parse_body :: "request \<Rightarrow> parsed_body" where
  "parse_body request =
     (if req_method request \<in> set [''POST'', ''PUT'', ''PATCH'']
      then (let contentType = (case headers_get request ''content-type'' of
                                 None \<Rightarrow> [] | Some c \<Rightarrow> c)
            in if str_includes contentType ''application/json''
               then (case req_json request of None \<Rightarrow> NullBody | Some kvs \<Rightarrow> JsonBody kvs)
               else if str_includes contentType ''application/x-www-form-urlencoded''
               then (case req_formData request of
                       None \<Rightarrow> NullBody
                     | Some es \<Rightarrow> FormBody (fromEntries es))
               else NullBody)
      else NullBody)"

text \<open>
  The \<open>switch (param.type)\<close> of \<open>resolveParams\<close>.  \<open>pathParams\<close>, \<open>queryParams\<close>,
  \<open>headers\<close> and a body that is not \<open>null\<close> are plain objects: a key is read from the
  own properties and, without one, from \<open>Object.prototype\<close>.  For the body the source
  reads \<open>param.key && body ? body[param.key] : body\<close>.
\<close>

fun extract_value ::
  "host_env \<Rightarrow> ParamMetadata \<Rightarrow> request \<Rightarrow> (string \<rightharpoonup> string) \<Rightarrow> (string \<rightharpoonup> string) \<Rightarrow>
   parsed_body \<Rightarrow> jsvalue" where
  "extract_value env param request pathParams queryParams body_value =
     (case pm_type param of
        PARAM \<Rightarrow> (if key_given param
                   then object_get env (string_properties pathParams) (the_key param)
                   else Rec pathParams)
      | QUERY \<Rightarrow> (if key_given param
                   then object_get env (string_properties queryParams) (the_key param)
                   else Rec queryParams)
      | BODY \<Rightarrow> (case body_value of
                    NullBody \<Rightarrow> Null
                  | JsonBody kvs \<Rightarrow>
                      (if key_given param then object_get env (map_of kvs) (the_key param)
                       else Obj kvs)
                  | FormBody m \<Rightarrow>
                      (if key_given param
                       then object_get env (string_properties m) (the_key param)
                       else Rec m))
      | HEADERS \<Rightarrow> (let headers = fromEntries (req_headers request)
                     in if key_given param
                        then object_get env (string_properties headers)
                               (toLowerCase (the_key param))
                        else Rec headers)
      | REQUEST \<Rightarrow> RawRequest
      | RESPONSE \<Rightarrow> ResponseProxy)"

text \<open>
  \<open>arr[i] = v\<close> on a JavaScript array: an index past the end extends the array, the
  slots in between read as \<open>undefined\<close>.
\<close>

definition array_set :: "jsvalue list \<Rightarrow> nat \<Rightarrow> jsvalue \<Rightarrow> jsvalue list" where
  "array_set arr i v =
     (if i < length arr then arr[i := v]
      else arr @ replicate (i - length arr) Undefined @ [v])"

text \<open>\<open>paramTypes[i]\<close>.\<close>

definition paramType_at :: "string list \<Rightarrow> nat \<Rightarrow> string option" where
  "paramType_at paramTypes i = (if i < length paramTypes then Some (paramTypes ! i) else None)"

text \<open>
  The loop \<open>for (const param of params)\<close> of \<open>resolveParams\<close>; \<open>container\<close> tells whether
  a container was passed (the dispatcher always passes one).
\<close>

fun resolveParams_loop ::
  "host_env \<Rightarrow> 'w pipe_metadata \<Rightarrow> bool \<Rightarrow> string list \<Rightarrow> request \<Rightarrow> (string \<rightharpoonup> string) \<Rightarrow>
   (string \<rightharpoonup> string) \<Rightarrow> parsed_body \<Rightarrow> ParamMetadata list \<Rightarrow> jsvalue list \<Rightarrow>
   ('w, jsvalue list) io" where
  "resolveParams_loop env pm container paramTypes request pathParams queryParams body_value []
     resolvedParams = io_return resolvedParams"
| "resolveParams_loop env pm container paramTypes request pathParams queryParams body_value
     (param # params) resolvedParams =
     (let v = extract_value env param request pathParams queryParams body_value
      in if container
         then io_bind
                (executeParameterPipes v pm param (paramType_at paramTypes (pm_index param)))
                (\<lambda>transformedValue.
                   resolveParams_loop env pm container paramTypes request pathParams queryParams
                     body_value params (array_set resolvedParams (pm_index param) transformedValue))
         else resolveParams_loop env pm container paramTypes request pathParams queryParams
                body_value params (array_set resolvedParams (pm_index param) v))"

text \<open>
  The last loop of \<open>resolveParams\<close>: every slot below \<open>paramTypes.length\<close> that is
  \<open>undefined\<close> receives the request object.
\<close>

fun is_undefined :: "jsvalue \<Rightarrow> bool" where
  "is_undefined Undefined = True"
| "is_undefined v = False"

definition fill_undefined :: "nat \<Rightarrow> jsvalue list \<Rightarrow> jsvalue list" where
  "fill_undefined n resolvedParams =
     map (\<lambda>v. if is_undefined v then RawRequest else v) (take n resolvedParams)
     @ drop n resolvedParams"

text \<open>
  \<open>ParamResolver.resolveParams(target, methodName, request, container)\<close>.  \<open>params\<close> is
  the \<open>params\<close> metadata of the method and \<open>paramTypes\<close> its \<open>design:paramtypes\<close>
  metadata (both \<open>[]\<close> when absent).
\<close>

definition resolveParams ::
  "host_env \<Rightarrow> ParamMetadata list \<Rightarrow> string list \<Rightarrow> 'w pipe_metadata \<Rightarrow> request \<Rightarrow> bool \<Rightarrow>
   ('w, jsvalue list) io" where
  "resolveParams env params paramTypes pm request container =
     io_bind (io_of (new_URL request)) (\<lambda>u.
       let pathParams = extractPathParams (pathname u) request;
           queryParams = fromEntries (searchParams u);
           body_value = parse_body request
       in io_bind
            (resolveParams_loop env pm container paramTypes request pathParams queryParams
               body_value params (replicate (length paramTypes) Undefined))
            (\<lambda>resolvedParams. io_return (fill_undefined (length paramTypes) resolvedParams)))"

text \<open>
  A pipe that appends a marker to the value it receives (\<open>transform(v) { return v + marker }\<close>,
  as \<open>TestPipe\<close> and \<open>ParamPipe\<close> of application.test.ts): \<open>+\<close> with a string operand is
  concatenation of the string forms.
\<close>

definition marker_pipe :: "string \<Rightarrow> 'w pipe" where
  "marker_pipe marker v metadata = io_return (Str (js_String v @ marker))"


section \<open>Exception filter dispatch (filters/exception.filter.ts,
  decorators/exception-filter.decorator.ts)\<close>

text \<open>\<open>HttpArgumentsHostImpl(req, null)\<close>: the host gives access to the request.\<close>

record arguments_host =
  host_request :: request

text \<open>
  \<open>filter.catch(exception, host)\<close>, awaited: it throws, or it returns a \<open>Response\<close>
  (\<open>Some\<close>), or it returns nothing or a value that is not a \<open>Response\<close> (\<open>None\<close>).
\<close>

type_synonym 'w exception_filter = "exn \<Rightarrow> arguments_host \<Rightarrow> ('w, response option) io"

text \<open>\<open>DefaultExceptionFilter.getErrorName\<close>.\<close>

definition getErrorName :: "int \<Rightarrow> string" where
  "getErrorName st =
     (case map_of
        [(400, ''Bad Request''), (401, ''Unauthorized''), (403, ''Forbidden''),
         (404, ''Not Found''), (405, ''Method Not Allowed''), (409, ''Conflict''),
         (422, ''Unprocessable Entity''), (429, ''Too Many Requests''),
         (500, ''Internal Server Error''), (502, ''Bad Gateway''),
         (503, ''Service Unavailable''), (504, ''Gateway Timeout'')] st of
        None \<Rightarrow> ''Unknown Error''
      | Some name \<Rightarrow> name)"

text \<open>\<open>DefaultExceptionFilter.sendErrorResponse\<close>.\<close>

definition sendErrorResponse :: "host_env \<Rightarrow> int \<Rightarrow> jsvalue \<Rightarrow> exn + response" where
  "sendErrorResponse env st b = new_Response env b st (Some ''application/json'')"

text \<open>\<open>exception.message\<close> of a thrown value that is not an \<open>HttpException\<close>.\<close>

fun message_of :: "exn \<Rightarrow> jsvalue" where
  "message_of (HttpException message st) = Str message"
| "message_of (Error name message) = Str message"
| "message_of (Thrown v) = get_message v"

text \<open>The condition \<open>exception && exception.message\<close>.\<close>

fun has_message :: "exn \<Rightarrow> bool" where
  "has_message (Thrown v) = (truthy v \<and> truthy (get_message v))"
| "has_message e = truthy (message_of e)"

text \<open>
  \<open>DefaultExceptionFilter.catch(exception, host)\<close>.  The body object is built field by
  field, \<open>path\<close> last, so an unreadable request URL throws before the response is built.
\<close>

fun DefaultExceptionFilter_catch :: "host_env \<Rightarrow> exn \<Rightarrow> arguments_host \<Rightarrow> exn + response" where
  "DefaultExceptionFilter_catch env (HttpException message st) host =
     (case new_URL (host_request host) of
        Inl e \<Rightarrow> Inl e
      | Inr u \<Rightarrow>
          sendErrorResponse env (sint st)
            (Obj [(''statusCode'', Num st), (''message'', Str message),
                  (''error'', Str (getErrorName (sint st))), (''timestamp'', Str (now env)),
                  (''path'', Str (pathname u))]))"
| "DefaultExceptionFilter_catch env exception host =
     (case new_URL (host_request host) of
        Inl e \<Rightarrow> Inl e
      | Inr u \<Rightarrow>
          (if has_message exception
           then sendErrorResponse env 500
                  (Obj [(''statusCode'', Num 500), (''message'', Str msg_internal_error),
                        (''error'', Str ''Internal Server Error''),
                        (''details'', message_of exception),
                        (''timestamp'', Str (now env)), (''path'', Str (pathname u))])
           else sendErrorResponse env 500
                  (Obj [(''statusCode'', Num 500), (''message'', Str msg_unknown_error),
                        (''error'', Str ''Internal Server Error''),
                        (''timestamp'', Str (now env)), (''path'', Str (pathname u))])))"

text \<open>
  \<open>ExceptionFilterExecutor.execute(exception, filters, host)\<close>.  Each filter is called
  inside \<open>try\<close>; one that throws is logged and the loop goes on.  After the loop the
  default filter is called outside any \<open>try\<close>.  What the default filter returns is always a
  \<open>Response\<close>, so the test \<open>result instanceof Response\<close> after it holds and the literal
  500 response that ends the source function is not reached.
\<close>

fun ExceptionFilterExecutor_execute ::
  "host_env \<Rightarrow> exn \<Rightarrow> 'w exception_filter list \<Rightarrow> arguments_host \<Rightarrow> ('w, response) io" where
  "ExceptionFilterExecutor_execute env exception [] host =
     io_of (DefaultExceptionFilter_catch env exception host)"
| "ExceptionFilterExecutor_execute env exception (flt # filters) host =
     (\<lambda>w. case flt exception host w of
        (Inr (Some result), w') \<Rightarrow> (Inr result, w')
      | (Inr None, w') \<Rightarrow> ExceptionFilterExecutor_execute env exception filters host w'
      | (Inl filterError, w') \<Rightarrow> ExceptionFilterExecutor_execute env exception filters host w')"

text \<open>
  \<open>FilterResolver.resolveFilters\<close>: controller-level filters first, method-level filters
  after them; a filter that cannot be instantiated is logged and left out.
\<close>

definition resolveFilters :: "'f provider_def list \<Rightarrow> 'f provider_def list \<Rightarrow> 'f list" where
  "resolveFilters controllerFilters methodFilters =
     instantiate_skipping (controllerFilters @ methodFilters)"

text \<open>\<open>FilterResolver.getGlobalFilters\<close>.\<close>

definition getGlobalFilters :: "'f provider_def list \<Rightarrow> exn + 'f list" where
  "getGlobalFilters globalFilters = instantiate_all globalFilters"


section \<open>Interceptor chain (interceptors/interceptor.interface.ts)\<close>

text \<open>
  An \<open>Observable\<close> of the kind the chain handles: once subscribed to, it emits one value
  and completes, or it fails.  \<open>notify\<close> is what subscribing does and what it ends in;
  \<open>in_subscribe\<close> tells whether the observer is notified during the call of \<open>subscribe\<close>
  itself (\<open>SimpleObservable.of\<close>, and an observable that subscribes to such a one in its own
  subscriber) or later (\<open>SimpleObservable.fromPromise\<close>).
\<close>

datatype ('w, 'a) observable = Observable (in_subscribe: bool) (notify: "('w, 'a) io")

text \<open>
  \<open>InterceptorExecutor.observableToPromise\<close>.  Its callbacks \<open>complete\<close> and \<open>error\<close> begin
  with \<open>subscription.unsubscribe()\<close>, and \<open>subscription\<close> is the constant that receives what
  \<open>subscribe\<close> returns.  When the observer is notified during that call the constant is not
  initialised yet: the callback throws a \<open>ReferenceError\<close>, \<open>SimpleObservable.subscribe\<close>
  catches it and passes it to \<open>error\<close>, which throws again, and the promise is rejected with
  that error whatever the observable carried.
\<close>

definition uninitialized_subscription :: exn where
  "uninitialized_subscription = Error ''ReferenceError'' ''Cannot access uninitialized variable.''"

definition observableToPromise :: "('w, 'a) observable \<Rightarrow> ('w, 'a) io" where
  "observableToPromise observable =
     (\<lambda>w. case notify observable w of
        (r, w') \<Rightarrow> if in_subscribe observable then (Inl uninitialized_subscription, w')
                   else (r, w'))"

text \<open>
  The handler given to the chain, \<open>() => Promise<T> | T\<close>: a function that returns a plain
  value or throws (\<open>Returns\<close>), or one that returns a promise (\<open>ReturnsPromise\<close>, an \<open>async\<close>
  function for instance), with what calling it, and for a promise awaiting it, does.  The
  work of a promise is counted at the call that creates it.
\<close>

datatype ('w, 'a) handler_fn = Returns "('w, 'a) io" | ReturnsPromise "('w, 'a) io"

text \<open>
  A \<open>CallHandler\<close> is its method \<open>handle()\<close>, which gives an observable and does not
  throw.  \<open>CallHandlerImpl.handle\<close> calls the function: a plain value becomes
  \<open>SimpleObservable.of(result)\<close>, a thrown value an observable that fails in \<open>subscribe\<close>, a
  promise \<open>SimpleObservable.fromPromise(result)\<close>.
\<close>

type_synonym ('w, 'a) call_handler = "'w \<Rightarrow> ('w, 'a) observable \<times> 'w"

fun CallHandlerImpl_handle :: "('w, 'a) handler_fn \<Rightarrow> ('w, 'a) call_handler" where
  "CallHandlerImpl_handle (Returns m) =
     (\<lambda>w. case m w of (r, w') \<Rightarrow> (Observable True (io_of r), w'))"
| "CallHandlerImpl_handle (ReturnsPromise m) =
     (\<lambda>w. case m w of (r, w') \<Rightarrow> (Observable False (io_of r), w'))"

text \<open>
  \<open>interceptor.intercept(context, next)\<close>, awaited: it throws or gives an observable; it
  calls \<open>next.handle()\<close> where and as often as it chooses.
\<close>

type_synonym ('w, 'a) interceptor =
  "execution_context \<Rightarrow> ('w, 'a) call_handler \<Rightarrow> ('w, ('w, 'a) observable) io"

text \<open>
  The call handler that the loop of \<open>InterceptorExecutor.execute\<close> builds around an
  interceptor: \<open>new CallHandlerImpl(async () => { const observable = await
  interceptor.intercept(context, nextHandler); return this.observableToPromise(observable) })\<close>.
\<close>

definition wrap_interceptor ::
  "('w, 'a) interceptor \<Rightarrow> execution_context \<Rightarrow> ('w, 'a) call_handler \<Rightarrow> ('w, 'a) call_handler" where
  "wrap_interceptor interceptor ctx nextHandler =
     CallHandlerImpl_handle
       (ReturnsPromise (io_bind (interceptor ctx nextHandler) observableToPromise))"

text \<open>
  The loop of \<open>InterceptorExecutor.execute\<close>, from the last interceptor to the first:
  the list it walks is the reversed array; an entry that is falsy (\<open>None\<close>) is passed over.
\<close>

fun execute_loop ::
  "('w, 'a) interceptor option list \<Rightarrow> execution_context \<Rightarrow> ('w, 'a) call_handler \<Rightarrow>
   ('w, 'a) call_handler" where
  "execute_loop [] ctx currentHandler = currentHandler"
| "execute_loop (None # rest) ctx currentHandler = execute_loop rest ctx currentHandler"
| "execute_loop (Some interceptor # rest) ctx currentHandler =
     execute_loop rest ctx (wrap_interceptor interceptor ctx currentHandler)"

text \<open>
  \<open>InterceptorExecutor.execute(interceptors, context, handler)\<close>: without interceptors
  \<open>await handler()\<close>, and with them \<open>observableToPromise(currentHandler.handle())\<close>.
\<close>

definition InterceptorExecutor_execute ::
  "('w, 'a) interceptor option list \<Rightarrow> execution_context \<Rightarrow> ('w, 'a) handler_fn \<Rightarrow> ('w, 'a) io" where
  "InterceptorExecutor_execute interceptors ctx handler =
     (if interceptors = []
      then (case handler of Returns m \<Rightarrow> m | ReturnsPromise m \<Rightarrow> m)
      else (\<lambda>w. case execute_loop (rev interceptors) ctx (CallHandlerImpl_handle handler) w of
              (observable, w') \<Rightarrow> observableToPromise observable w'))"


section \<open>Request pipeline (application/application.ts)\<close>

text \<open>What a handler returns: a \<open>Response\<close> of the host or any other value.\<close>

datatype handler_result = Resp response | Val jsvalue

text \<open>
  \<open>RouteInfo\<close>, with the metadata the pipeline reads for the route's controller class and
  method name: the \<open>guards\<close> and \<open>filters\<close> metadata of the class and of the method, the
  \<open>interceptors:class\<close> and \<open>interceptors:method\<close> metadata, the \<open>params\<close> and
  \<open>design:paramtypes\<close> metadata and the pipes.  The handler takes the argument list.
\<close>

record 'w route_info =
  rt_method :: string
  rt_path :: string
  rt_handler :: "jsvalue list \<Rightarrow> ('w, handler_result) io"
  rt_controllerClass :: string
  rt_methodName :: string
  md_controllerGuards :: "'w guard_class list"
  md_methodGuards :: "'w guard_class list"
  md_controllerFilters :: "'w exception_filter provider_def list"
  md_methodFilters :: "'w exception_filter provider_def list"
  md_classInterceptors :: "('w, handler_result) interceptor provider_def list"
  md_methodInterceptors :: "('w, handler_result) interceptor provider_def list"
  md_params :: "ParamMetadata list"
  md_paramTypes :: "string list"
  md_classPipes :: "'w pipe provider_def list"
  md_methodPipes :: "'w pipe provider_def list"
  md_paramPipes :: "nat \<Rightarrow> 'w pipe provider_def list"

text \<open>
  The application: its route table, what \<open>useGlobalGuards\<close>, \<open>useGlobalFilters\<close> and
  \<open>useGlobalPipes\<close> stored, and of its options \<open>cors\<close> (\<open>true\<close> unless the caller says
  otherwise), \<open>staticDir\<close> (\<open>"static"\<close> unless the caller says otherwise; the empty
  string is falsy) and whether \<open>swagger\<close> was given.
\<close>

record 'w application =
  app_routes :: "'w route_info list"
  app_globalGuards :: "'w guard_class list"
  app_globalFilters :: "'w exception_filter provider_def list"
  app_globalPipes :: "'w pipe provider_def list"
  app_cors :: bool
  app_staticDir :: string
  app_swagger :: bool

text \<open>The response of a rejected guard chain (step 3 of the handler).\<close>

definition guard_rejection :: "host_env \<Rightarrow> GuardResult \<Rightarrow> exn + response" where
  "guard_rejection env guardResult =
     (let (st, message) =
        (case guard_error guardResult of
           Some (HttpException m s) \<Rightarrow> (sint s, m)
         | Some e \<Rightarrow> (403, if truthy (message_of e) then js_String (message_of e)
                             else msg_access_denied)
         | None \<Rightarrow> (403, msg_access_denied))
      in new_Response env
           (Obj [(''error'', Str msg_guard_failed), (''message'', Str message)])
           st (Some ''application/json''))"

text \<open>Steps 1 to 3: the guards of the request, global ones first, and their verdict.
  \<open>None\<close> lets the request through; \<open>Some r\<close> is the rejection to return.\<close>

definition guard_stage ::
  "host_env \<Rightarrow> 'w guard list \<Rightarrow> execution_context \<Rightarrow> ('w, response option) io" where
  "guard_stage env guards ctx =
     (if guards = [] then io_return None
      else (\<lambda>w. case GuardExecutor_canActivate guards ctx w of
              (guardResult, w') \<Rightarrow>
                (if \<not> canActivate guardResult
                 then (case guard_rejection env guardResult of
                         Inl e \<Rightarrow> (Inl e, w')
                       | Inr r \<Rightarrow> (Inr (Some r), w'))
                 else (Inr None, w'))))"

text \<open>Step 6: shaping what the handler returned.\<close>

fun is_object :: "jsvalue \<Rightarrow> bool" where
  "is_object (Obj kvs) = True"
| "is_object (Rec m) = True"
| "is_object RawRequest = True"
| "is_object ResponseProxy = True"
| "is_object v = False"

fun shape_result :: "handler_result \<Rightarrow> handler_result" where
  "shape_result (Resp r) = Resp r"
| "shape_result (Val (Str s)) =
     Resp \<lparr>status = 200, body = Str s, content_type = Some ''text/plain''\<rparr>"
| "shape_result (Val v) =
     (if is_object v
      then Resp \<lparr>status = 200, body = v, content_type = Some ''application/json''\<rparr>
      else if truthy v then Val v
      else Resp \<lparr>status = 200, body = Str ''OK'', content_type = None\<rparr>)"

definition route_pipes :: "'w application \<Rightarrow> 'w route_info \<Rightarrow> 'w pipe_metadata" where
  "route_pipes app route =
     \<lparr>globalPipes = app_globalPipes app, classPipes = md_classPipes route,
      methodPipes = md_methodPipes route, paramPipes = md_paramPipes route\<rparr>"

text \<open>
  Step 1: the guards of the request.  The local guards are resolved first, then the global
  ones; the array is \<open>[...globalGuards, ...localGuards]\<close>.
\<close>

definition request_guards :: "'w application \<Rightarrow> 'w route_info \<Rightarrow> exn + 'w guard list" where
  "request_guards app route =
     (let localGuards = resolveGuards (md_controllerGuards route) (md_methodGuards route)
      in case getGlobalGuards (app_globalGuards app) of
           Inl e \<Rightarrow> Inl e
         | Inr globalGuards \<Rightarrow> Inr (globalGuards @ localGuards))"

text \<open>
  Steps 4 to 6: the arguments are resolved, the route's handler is called with them (with
  the request alone when there are none) and its result is shaped.  The handler is called
  directly.
\<close>

definition invoke_handler ::
  "host_env \<Rightarrow> 'w application \<Rightarrow> 'w route_info \<Rightarrow> request \<Rightarrow> ('w, handler_result) io" where
  "invoke_handler env app route req =
     io_bind
       (resolveParams env (md_params route) (md_paramTypes route) (route_pipes app route) req
          True)
       (\<lambda>resolvedParams.
          io_bind
            (if resolvedParams \<noteq> [] then rt_handler route resolvedParams
             else rt_handler route [RawRequest])
            (\<lambda>result. io_return (shape_result result)))"

text \<open>The \<open>try\<close> block of the handler that \<open>findMatchingRoute\<close> builds (steps 1 to 6).\<close>

definition handler_try ::
  "host_env \<Rightarrow> 'w application \<Rightarrow> 'w route_info \<Rightarrow> request \<Rightarrow> ('w, handler_result) io" where
  "handler_try env app route req =
     io_bind (io_of (request_guards app route)) (\<lambda>guards.
       let ctx = \<lparr>ctx_request = req, ctx_class = rt_controllerClass route,
                  ctx_handler = rt_methodName route\<rparr>
       in io_bind (guard_stage env guards ctx) (\<lambda>rejection.
            case rejection of
              Some r \<Rightarrow> io_return (Resp r)
            | None \<Rightarrow> invoke_handler env app route req))"

text \<open>
  Step 7, the \<open>catch\<close> block: the filters of the request, the array being
  \<open>[...globalFilters, ...localFilters]\<close>, and the dispatch to them.
\<close>

definition request_filters ::
  "'w application \<Rightarrow> 'w route_info \<Rightarrow> exn + 'w exception_filter list" where
  "request_filters app route =
     (let localFilters = resolveFilters (md_controllerFilters route) (md_methodFilters route)
      in case getGlobalFilters (app_globalFilters app) of
           Inl e \<Rightarrow> Inl e
         | Inr globalFilters \<Rightarrow> Inr (globalFilters @ localFilters))"

definition handler_catch ::
  "host_env \<Rightarrow> 'w application \<Rightarrow> 'w route_info \<Rightarrow> request \<Rightarrow> exn \<Rightarrow> ('w, handler_result) io" where
  "handler_catch env app route req error =
     io_bind (io_of (request_filters app route)) (\<lambda>filters.
       io_bind (ExceptionFilterExecutor_execute env error filters \<lparr>host_request = req\<rparr>)
         (\<lambda>r. io_return (Resp r)))"

text \<open>The handler of a matched route.\<close>

definition route_handler ::
  "host_env \<Rightarrow> 'w application \<Rightarrow> 'w route_info \<Rightarrow> request \<Rightarrow> ('w, handler_result) io" where
  "route_handler env app route req =
     io_catch (handler_try env app route req) (handler_catch env app route req)"

text \<open>
  \<open>Application.findMatchingRoute(pathname, method)\<close>: the first route, in registration
  order, whose method is the request's and whose path matches; with it the parameters.
\<close>

fun findMatchingRoute ::
  "'w route_info list \<Rightarrow> string \<Rightarrow> string \<Rightarrow> ('w route_info \<times> (string \<rightharpoonup> string)) option" where
  "findMatchingRoute [] path method = None"
| "findMatchingRoute (route # routes) path method =
     (if rt_method route \<noteq> method then findMatchingRoute routes path method
      else (case matchRoute (rt_path route) path of
              Some params \<Rightarrow> Some (route, params)
            | None \<Rightarrow> findMatchingRoute routes path method))"

text \<open>The headers the server loop adds: \<open>corsHeaders\<close>.\<close>

definition corsHeaders :: "'w application \<Rightarrow> (string \<times> string) list" where
  "corsHeaders app =
     (if app_cors app
      then [(''Access-Control-Allow-Origin'', ''*''),
            (''Access-Control-Allow-Methods'', ''GET, POST, PUT, DELETE, PATCH, OPTIONS''),
            (''Access-Control-Allow-Headers'', ''Content-Type, Authorization'')]
      else [])"

text \<open>The paths the server loop answers itself when Swagger is set up.\<close>

definition swagger_paths :: "string list" where
  "swagger_paths =
     [''/docs'', ''/api/docs'', ''/swagger'', ''/docs-json'', ''/api/docs-json'',
      ''/swagger.json'']"

text \<open>
  What the \<open>fetch\<close> callback of the server loop answers with:
  \<^item> \<open>Preflight hs\<close>: the empty 204 response to an \<open>OPTIONS\<close> request, with the headers \<open>hs\<close>;
  \<^item> \<open>SwaggerAnswer\<close>: the page, the specification or the redirect of a Swagger path;
  \<^item> \<open>StaticFile path\<close>: what \<open>handleStaticFile(path)\<close> gives (it reads the file system);
  \<^item> \<open>Routed r hs\<close>: what the handler of the matched route returned, after the loop has
    set the headers \<open>hs\<close> on it;
  \<^item> \<open>NotFound hs\<close>: the 404 response for a path without route, with the headers \<open>hs\<close>.
\<close>

datatype served =
    Preflight "(string \<times> string) list"
  | SwaggerAnswer
  | StaticFile string
  | Routed handler_result "(string \<times> string) list"
  | NotFound "(string \<times> string) list"

text \<open>
  \<open>response.headers.set(key, value)\<close> for each of the CORS headers, on what the handler
  returned.  That is a \<open>Response\<close>, or a truthy value that is neither an object nor a
  string, which the handler's last line \<open>return result || new Response("OK")\<close> lets
  through: such a value has no \<open>headers\<close> and the call throws a \<open>TypeError\<close>.
\<close>

definition add_cors_headers :: "'w application \<Rightarrow> handler_result \<Rightarrow> exn + served" where
  "add_cors_headers app response =
     (if app_cors app
      then (case response of
              Resp r \<Rightarrow> Inr (Routed (Resp r) (corsHeaders app))
            | Val v \<Rightarrow>
                Inl (Error ''TypeError''
                       ''undefined is not an object (evaluating (response.headers.set))''))
      else Inr (Routed response []))"

text \<open>
  The \<open>fetch\<close> callback of the server loop.  The URL of the request is parsed; an
  \<open>OPTIONS\<close> request, a Swagger path and a path under the static directory are answered
  before the routes are looked at; then the route is looked up by the path and the
  request's method, the matched route's handler runs on the request with the parameters
  attached, and the CORS headers are set on what it returned.
\<close>

definition dispatch ::
  "host_env \<Rightarrow> 'w application \<Rightarrow> request \<Rightarrow> ('w, served) io" where
  "dispatch env app req =
     io_bind (io_of (new_URL req)) (\<lambda>u.
       if req_method req = ''OPTIONS'' then io_return (Preflight (corsHeaders app))
       else if app_swagger app \<and> pathname u \<in> set swagger_paths then io_return SwaggerAnswer
       else if app_staticDir app \<noteq> [] \<and>
               starts_with (pathname u) (''/'' @ app_staticDir app @ ''/'')
         then io_return (StaticFile (pathname u))
       else
         (case findMatchingRoute (app_routes app) (pathname u) (req_method req) of
            None \<Rightarrow> io_return (NotFound (corsHeaders app))
          | Some (route, params) \<Rightarrow>
              io_bind (route_handler env app route (req\<lparr>req_params := Some params\<rparr>))
                (\<lambda>response. io_of (add_cors_headers app response))))"


section \<open>Dependency container (container/container.ts, decorators/injectable.decorator.ts)\<close>

datatype scope = Singleton | Transient

text \<open>A parameter type is one of the three primitive wrappers or a constructor.\<close>

datatype ptype = PString | PNumber | PBoolean | PCtor nat

text \<open>
  An object made by \<open>new C(...dependencies)\<close>: its identity, its class and the arguments
  it was built with (\<open>None\<close> is \<open>undefined\<close>).
\<close>

datatype service_instance =
  Instance (inst_id: nat) (inst_class: nat) (inst_args: "service_instance option list")

text \<open>
  A constructor is known by its identity, a number here.  \<open>class_meta\<close> is what the
  container reads from a constructor and what it does with it: its \<open>name\<close>, its \<open>scope\<close>
  metadata (\<open>None\<close> when \<open>Reflect.getMetadata("scope", C)\<close> is \<open>undefined\<close>, that is when
  the class was not decorated with \<open>Injectable\<close>), its \<open>design:paramtypes\<close> metadata (\<open>[]\<close>
  when absent) and its body: what \<open>new C(...dependencies)\<close> throws for the given arguments,
  \<open>None\<close> when it returns the new object.
\<close>

record class_meta =
  cname :: string
  cscope :: "scope option"
  paramtypes :: "ptype list"
  cbody :: "service_instance option list \<Rightarrow> exn option"

text \<open>\<open>Injectable(options)\<close> writes the scope \<open>options?.scope || "singleton"\<close>.\<close>

definition Injectable :: "scope option \<Rightarrow> class_meta \<Rightarrow> class_meta" where
  "Injectable options target =
     target\<lparr>cscope := Some (case options of None \<Rightarrow> Singleton | Some sc \<Rightarrow> sc)\<rparr>"

text \<open>A token is a string or a constructor.\<close>

datatype token = TString string | TCtor nat

text \<open>
  The container, \<open>services\<close> and \<open>singletons\<close>, together with the count of the objects
  allocated so far, which gives each new object its identity.
\<close>

record container =
  services :: "string \<rightharpoonup> nat"
  singletons :: "string \<rightharpoonup> service_instance"
  allocated :: nat

definition register :: "string \<Rightarrow> nat \<Rightarrow> container \<Rightarrow> container" where
  "register tok target s = s\<lparr>services := (services s)(tok \<mapsto> target)\<rparr>"

definition clear :: "container \<Rightarrow> container" where
  "clear s = s\<lparr>services := Map.empty, singletons := Map.empty\<rparr>"

text \<open>The error of \<open>resolve\<close> for a token without a class.\<close>

definition service_not_found :: "string \<Rightarrow> exn" where
  "service_not_found serviceToken =
     Error ''Error'' (msg_service_prefix @ serviceToken @ msg_service_suffix)"

text \<open>
  The error of the host when the nested calls do not fit on its stack any more, a
  \<open>RangeError\<close>.
\<close>

definition stack_overflow :: exn where
  "stack_overflow = Error ''RangeError'' ''Maximum call stack size exceeded.''"

text \<open>The locals \<open>serviceToken\<close> and \<open>scope\<close> of \<open>resolve\<close>.\<close>

definition token_name :: "(nat \<Rightarrow> class_meta) \<Rightarrow> token \<Rightarrow> string" where
  "token_name classes tok = (case tok of TString t \<Rightarrow> t | TCtor c \<Rightarrow> cname (classes c))"

definition token_scope :: "(nat \<Rightarrow> class_meta) \<Rightarrow> token \<Rightarrow> scope option" where
  "token_scope classes tok =
     (case tok of TString t \<Rightarrow> Some Singleton | TCtor c \<Rightarrow> cscope (classes c))"

fun singleton_scoped :: "scope option \<Rightarrow> bool" where
  "singleton_scoped (Some Singleton) = True"
| "singleton_scoped sc = False"

text \<open>
  The callback of \<open>paramTypes.map\<close>: a primitive parameter gives \<open>undefined\<close>, any other
  one is resolved by the recursive call \<open>r\<close>.
\<close>

definition resolve_dependency ::
  "(token \<Rightarrow> container \<Rightarrow> (exn + service_instance) \<times> container) \<Rightarrow>
   ptype \<Rightarrow> container \<Rightarrow> (exn + service_instance option) \<times> container" where
  "resolve_dependency r paramType s =
     (case paramType of
        PCtor c \<Rightarrow>
          (case r (TCtor c) s of
             (Inl e, s') \<Rightarrow> (Inl e, s')
           | (Inr i, s') \<Rightarrow> (Inr (Some i), s'))
      | _ \<Rightarrow> (Inr None, s))"

text \<open>\<open>paramTypes.map(...)\<close>, from left to right; it ends at the first throw.\<close>

fun resolve_all ::
  "(ptype \<Rightarrow> container \<Rightarrow> (exn + service_instance option) \<times> container) \<Rightarrow>
   ptype list \<Rightarrow> container \<Rightarrow> (exn + service_instance option list) \<times> container" where
  "resolve_all f [] s = (Inr [], s)"
| "resolve_all f (paramType # rest) s =
     (case f paramType s of
        (Inl e, s') \<Rightarrow> (Inl e, s')
      | (Inr d, s') \<Rightarrow>
          (case resolve_all f rest s' of
             (Inl e, s'') \<Rightarrow> (Inl e, s'')
           | (Inr ds, s'') \<Rightarrow> (Inr (d # ds), s'')))"

text \<open>
  \<open>Container.resolve(token)\<close>.  The recursion through the constructor parameters has no
  bound of its own; what bounds it is the stack of the host.  \<open>depth\<close> is the number of
  nested calls of \<open>resolve\<close> the stack still has room for: a call beyond it throws the
  host's \<open>RangeError\<close>, which is how a cycle of constructors ends, whatever the depth.
\<close>

primrec resolve ::
  "nat \<Rightarrow> (nat \<Rightarrow> class_meta) \<Rightarrow> token \<Rightarrow> container \<Rightarrow> (exn + service_instance) \<times> container" where
  "resolve 0 classes tok s = (Inl stack_overflow, s)"
| "resolve (Suc depth) classes tok s =
     (let serviceToken = token_name classes tok;
          scope = token_scope classes tok
      in case (if singleton_scoped scope then singletons s serviceToken else None) of
           Some cached \<Rightarrow> (Inr cached, s)
         | None \<Rightarrow>
             (case (case tok of TString t \<Rightarrow> services s t | TCtor c \<Rightarrow> Some c) of
                None \<Rightarrow> (Inl (service_not_found serviceToken), s)
              | Some ServiceClass \<Rightarrow>
                  (case resolve_all (resolve_dependency (resolve depth classes))
                          (paramtypes (classes ServiceClass)) s of
                     (Inl e, s') \<Rightarrow> (Inl e, s')
                   | (Inr dependencies, s') \<Rightarrow>
                       (case cbody (classes ServiceClass) dependencies of
                          Some e \<Rightarrow> (Inl e, s')
                        | None \<Rightarrow>
                            (let inst = Instance (allocated s') ServiceClass dependencies;
                                 s'' = s'\<lparr>allocated := Suc (allocated s')\<rparr>
                             in (Inr inst,
                                 if singleton_scoped scope
                                 then s''\<lparr>singletons := (singletons s'')(serviceToken \<mapsto> inst)\<rparr>
                                 else s''))))))"

text \<open>
  A constructor whose parameters, and their parameters in turn, end within \<open>d\<close> levels:
  there is no cycle among the constructors it depends on, and \<open>d\<close> nested calls resolve it.
\<close>

primrec deps_within :: "nat \<Rightarrow> (nat \<Rightarrow> class_meta) \<Rightarrow> nat \<Rightarrow> bool" where
  "deps_within 0 classes c = False"
| "deps_within (Suc d) classes c =
     list_all (\<lambda>p. case p of PCtor c' \<Rightarrow> deps_within d classes c' | _ \<Rightarrow> True)
       (paramtypes (classes c))"

fun is_primitive :: "ptype \<Rightarrow> bool" where
  "is_primitive (PCtor c) = False"
| "is_primitive p = True"

text \<open>The container before anything is registered.\<close>

definition empty_container :: container where
  "empty_container = \<lparr>services = Map.empty, singletons = Map.empty, allocated = 0\<rparr>"


section \<open>Sample components\<close>

text \<open>
  Components for the examples below.  Their world is a log, a list of names: each one
  appends its name when it runs.  \<open>fetch_env\<close> is a host that accepts the statuses of the
  Fetch standard and writes a built-in function as \<open>function f() { [native code] }\<close>.
\<close>

definition fetch_env :: host_env where
  "fetch_env =
     \<lparr>valid_status = (\<lambda>s. 200 \<le> s \<and> s \<le> 599), now = ''2025-08-22T00:00:00.000Z'',
      function_text = (\<lambda>name. ''function '' @ name @ ''() { [native code] }'')\<rparr>"

definition get_request :: "string \<Rightarrow> request" where
  "get_request path =
     \<lparr>req_url = Some \<lparr>pathname = path, searchParams = []\<rparr>, req_method = ''GET'',
      req_headers = [], req_params = None, req_json = None, req_formData = None\<rparr>"

text \<open>A guard that logs its name and answers \<open>v\<close>.\<close>

definition logging_guard :: "string \<Rightarrow> jsvalue \<Rightarrow> string list guard" where
  "logging_guard name v = (\<lambda>ctx w. (Inr (Plain v), w @ [name]))"

text \<open>A handler that logs \<open>handler\<close> and returns, and one that logs and throws.\<close>

definition logging_handler :: "jsvalue list \<Rightarrow> (string list, handler_result) io" where
  "logging_handler = (\<lambda>args w. (Inr (Val (Str ''done'')), w @ [''handler'']))"

definition throwing_handler :: "jsvalue list \<Rightarrow> (string list, handler_result) io" where
  "throwing_handler = (\<lambda>args w. (Inl (Error ''Error'' ''boom''), w @ [''handler'']))"

text \<open>
  An interceptor in the style of \<open>LoggingInterceptor\<close>: it logs, calls \<open>next.handle()\<close>
  and returns an observable that subscribes to the inner one in its subscriber and logs
  again when the inner one gives its value.
\<close>

definition logging_interceptor :: "string \<Rightarrow> (string list, 'a) interceptor" where
  "logging_interceptor name =
     (\<lambda>ctx next w. case next (w @ [name @ ''-before'']) of
        (observable, w') \<Rightarrow>
          (Inr (Observable (in_subscribe observable)
                  (\<lambda>v. case notify observable v of
                          (Inr x, v') \<Rightarrow> (Inr x, v' @ [name @ ''-after''])
                        | (Inl e, v') \<Rightarrow> (Inl e, v'))),
           w'))"

text \<open>A filter that logs its name and answers with a response whose body is its name.\<close>

definition answering_filter :: "string \<Rightarrow> string list exception_filter" where
  "answering_filter name =
     (\<lambda>e host w. (Inr (Some \<lparr>status = 500, body = Str name, content_type = None\<rparr>), w @ [name]))"

text \<open>A GET route with a handler and no metadata, and an application with the given
  routes, nothing global and the options the constructor starts from.\<close>

definition bare_route ::
  "string \<Rightarrow> (jsvalue list \<Rightarrow> ('w, handler_result) io) \<Rightarrow> 'w route_info" where
  "bare_route path h =
     \<lparr>rt_method = ''GET'', rt_path = path, rt_handler = h,
      rt_controllerClass = ''Controller'', rt_methodName = ''method'',
      md_controllerGuards = [], md_methodGuards = [],
      md_controllerFilters = [], md_methodFilters = [],
      md_classInterceptors = [], md_methodInterceptors = [],
      md_params = [], md_paramTypes = [],
      md_classPipes = [], md_methodPipes = [], md_paramPipes = (\<lambda>i. [])\<rparr>"

definition bare_app :: "'w route_info list \<Rightarrow> 'w application" where
  "bare_app rs =
     \<lparr>app_routes = rs, app_globalGuards = [], app_globalFilters = [], app_globalPipes = [],
      app_cors = True, app_staticDir = ''static'', app_swagger = False\<rparr>"

text \<open>A filter that logs its name and returns nothing, and one that logs and throws.\<close>

definition silent_filter :: "string \<Rightarrow> string list exception_filter" where
  "silent_filter name = (\<lambda>e host w. (Inr None, w @ [name]))"

definition failing_filter :: "string \<Rightarrow> string list exception_filter" where
  "failing_filter name = (\<lambda>e host w. (Inl (Error ''Error'' ''filter failed''), w @ [name]))"

text \<open>Parameter pipes for the parameter \<open>k\<close> alone.\<close>

definition pipes_at :: "nat \<Rightarrow> 'p list \<Rightarrow> nat \<Rightarrow> 'p list" where
  "pipes_at k ps = (\<lambda>i. if i = k then ps else [])"

text \<open>A constructor body that returns, and one that throws.\<close>

definition returns :: "service_instance option list \<Rightarrow> exn option" where
  "returns = (\<lambda>args. None)"

definition throws :: "exn \<Rightarrow> service_instance option list \<Rightarrow> exn option" where
  "throws e = (\<lambda>args. Some e)"

text \<open>
  The constructors \<open>0\<close>, \<open>1\<close>, ... with the metadata of a list; any other number is a
  class without metadata and without parameters.
\<close>

definition class_table :: "class_meta list \<Rightarrow> nat \<Rightarrow> class_meta" where
  "class_table cs =
     (\<lambda>c. if c < length cs then cs ! c
          else \<lparr>cname = ''Object'', cscope = None, paramtypes = [], cbody = returns\<rparr>)"


section \<open>Properties of the matcher\<close>

lemma matchRoute_same_count:
  assumes "matchRoute routePath requestPath = Some params"
  shows "length (segments routePath) = length (segments requestPath)"
  using assms by (simp add: matchRoute_def Let_def split: if_splits)

text \<open>
  The expectations of application.test.ts for static and parameter paths hold.
\<close>

lemma matchRoute_static_and_parameters:
  "matchRoute ''/users'' ''/users'' = Some Map.empty"
  "matchRoute ''/users/list'' ''/users/list'' = Some Map.empty"
  "matchRoute ''/users'' ''/posts'' = None"
  "matchRoute ''/users/:id'' ''/users/123'' = Some [''id'' \<mapsto> ''123'']"
  "matchRoute ''/users/:id/posts/:postId'' ''/users/123/posts/456''
     = Some [''id'' \<mapsto> ''123'', ''postId'' \<mapsto> ''456'']"
  "matchRoute ''/users/:id'' ''/users'' = None"
  by (simp_all add: matchRoute_def segments_def startsWithColon_def slice1_def assign_param_def)

text \<open>A parameter named \<open>__proto__\<close> matches and binds nothing.\<close>

lemma matchRoute_proto_parameter:
  "matchRoute ''/users/:__proto__'' ''/users/123'' = Some Map.empty"
  by (simp add: matchRoute_def segments_def startsWithColon_def slice1_def assign_param_def)

text \<open>
  Claim C1.  For a stored pattern whose last segment is \<open>**\<close>, matching should succeed
  when the request path has at least the segments before the wildcard, and capture the rest
  under the key \<open>**\<close> joined by \<open>/\<close>: the pattern \<open>/files/**\<close> against \<open>/files/a/b.txt\<close>
  should bind \<open>**\<close> to \<open>a/b.txt\<close>.  \<open>Application.matchRoute\<close> has no case for \<open>**\<close>: it
  compares the segment counts first, two against three here, and answers \<open>null\<close>.
\<close>

theorem matchRoute_double_star_no_match:
  "matchRoute ''/files/**'' ''/files/a/b.txt'' = None"
  by (simp add: matchRoute_def segments_def)

text \<open>
  Claim C8.  In per-segment matching a \<open>*\<close> segment should match any request segment and
  bind nothing; a static segment requires equality, a \<open>:name\<close> segment binds, and without a
  trailing \<open>**\<close> the segment counts must be equal.  \<open>Application.matchRoute\<close> has no case
  for \<open>*\<close> either: the segment is compared as a static one, so \<open>/users/*\<close> does not match
  \<open>/users/123\<close> (it matches only the literal path \<open>/users/*\<close>).
\<close>

theorem matchRoute_star_is_literal:
  "matchRoute ''/users/*'' ''/users/123'' = None \<and>
   matchRoute ''/users/*'' ''/users/*'' = Some Map.empty"
  by (simp add: matchRoute_def segments_def startsWithColon_def)


section \<open>Properties of the parameter and pipe stage\<close>

lemma io_bind_return_left: "io_bind (io_return x) f = f x"
  by (simp add: io_bind_def io_return_def)

lemma io_bind_assoc: "io_bind (io_bind m f) g = io_bind m (\<lambda>x. io_bind (f x) g)"
  by (auto simp: io_bind_def fun_eq_iff split: prod.splits sum.splits)

lemma io_bind_of_Inr: "io_bind (io_of (Inr x)) f = f x"
  by (simp add: io_bind_def io_of_def)

lemma executePipes_append:
  "executePipes v (xs @ ys) md = io_bind (executePipes v xs md) (\<lambda>v'. executePipes v' ys md)"
  by (induction xs arbitrary: v) (simp_all add: io_bind_return_left io_bind_assoc)

lemma executePipes_if_empty:
  "(if pipes = [] then io_return v else executePipes v pipes md) = executePipes v pipes md"
  by (cases pipes) simp_all

lemma executeParameterPipes_merged:
  assumes "getGlobalPipes pm = Inr g"
    and "resolvePipes pm = Inr m"
    and "resolveParameterPipes pm (pm_index param) = Inr p"
  shows "executeParameterPipes v pm param pt =
           executePipes v (g @ m @ p)
             \<lparr>am_type = pm_type param, am_metatype = pt, am_data = pm_key param\<rparr>"
  using assms
  by (simp add: executeParameterPipes_def io_bind_of_Inr Let_def executePipes_if_empty)

lemma marker_pipes_run:
  "executeParameterPipes v
     \<lparr>globalPipes = [OfInstance (marker_pipe G)], classPipes = [],
      methodPipes = [OfInstance (marker_pipe M)],
      paramPipes = (\<lambda>i. [OfInstance (marker_pipe P)])\<rparr> param pt w
   = (Inr (Str (js_String v @ G @ M @ P)), w)"
  by (simp add: executeParameterPipes_def getGlobalPipes_def resolvePipes_def
      resolveParameterPipes_def createPipeInstances_def io_bind_def io_of_def
      marker_pipe_def io_return_def)

lemma resolveParams_loop_step:
  assumes "getGlobalPipes pm = Inr g"
    and "resolvePipes pm = Inr m"
    and "resolveParameterPipes pm (pm_index param) = Inr p"
  shows "resolveParams_loop env pm True pts rq pp qp b (param # params) acc =
           io_bind
             (executePipes (extract_value env param rq pp qp b) (g @ m @ p)
                \<lparr>am_type = pm_type param, am_metatype = paramType_at pts (pm_index param),
                 am_data = pm_key param\<rparr>)
             (\<lambda>v'. resolveParams_loop env pm True pts rq pp qp b params
                     (array_set acc (pm_index param) v'))"
  by (simp add: Let_def executeParameterPipes_merged[OF assms])

lemma resolveParams_single_marked:
  assumes "req_url request = Some u"
  shows "resolveParams env [param] paramTypes
           \<lparr>globalPipes = [OfInstance (marker_pipe G)], classPipes = [],
            methodPipes = [OfInstance (marker_pipe M)],
            paramPipes = (\<lambda>i. [OfInstance (marker_pipe P)])\<rparr> request True w
         = (Inr (fill_undefined (length paramTypes)
                   (array_set (replicate (length paramTypes) Undefined) (pm_index param)
                      (Str (js_String
                              (extract_value env param request
                                 (extractPathParams (pathname u) request)
                                 (fromEntries (searchParams u)) (parse_body request))
                            @ G @ M @ P)))), w)"
  using assms
  by (simp add: resolveParams_def new_URL_def io_bind_def io_of_def Let_def marker_pipes_run
      io_return_def)

text \<open>
  Claim C5.  The value extracted for a decorated parameter goes through the global pipes,
  then the method-scoped pipes (those of the class and of the method, as \<open>resolvePipes\<close>
  collects them), then the parameter-scoped pipes, each pipe receiving what the previous one
  returned; with one marker-appending pipe at each level, G global, M on the method and P on
  the parameter, an input string becomes input + G + M + P.  This is what \<open>resolveParams\<close>
  does with each decorated parameter: its loop takes the parameters in turn, extracts the
  value of each, runs it through the merged pipe list and stores what comes out at the
  parameter's index; so with the three marker pipes a decorated parameter arrives at the
  handler as its extracted value + G + M + P.
\<close>

theorem pipes_global_method_parameter:
  assumes "getGlobalPipes pm = Inr g"
    and "resolvePipes pm = Inr m"
    and "resolveParameterPipes pm (pm_index param) = Inr p"
  shows "executeParameterPipes v pm param pt =
           io_bind (executePipes v g
                      \<lparr>am_type = pm_type param, am_metatype = pt, am_data = pm_key param\<rparr>)
             (\<lambda>v1. io_bind (executePipes v1 m
                               \<lparr>am_type = pm_type param, am_metatype = pt, am_data = pm_key param\<rparr>)
               (\<lambda>v2. executePipes v2 p
                        \<lparr>am_type = pm_type param, am_metatype = pt, am_data = pm_key param\<rparr>))
         \<and> executeParameterPipes (Str input)
             \<lparr>globalPipes = [OfInstance (marker_pipe G)], classPipes = [],
              methodPipes = [OfInstance (marker_pipe M)],
              paramPipes = (\<lambda>i. [OfInstance (marker_pipe P)])\<rparr> param pt w
           = (Inr (Str (input @ G @ M @ P)), w)
         \<and> resolveParams_loop env pm True pts rq pp qp b (param # params) acc =
             io_bind
               (executePipes (extract_value env param rq pp qp b) (g @ m @ p)
                  \<lparr>am_type = pm_type param, am_metatype = paramType_at pts (pm_index param),
                   am_data = pm_key param\<rparr>)
               (\<lambda>v'. resolveParams_loop env pm True pts rq pp qp b params
                       (array_set acc (pm_index param) v'))
         \<and> (req_url request = Some u \<longrightarrow>
              resolveParams env [param] paramTypes
                \<lparr>globalPipes = [OfInstance (marker_pipe G)], classPipes = [],
                 methodPipes = [OfInstance (marker_pipe M)],
                 paramPipes = (\<lambda>i. [OfInstance (marker_pipe P)])\<rparr> request True w
              = (Inr (fill_undefined (length paramTypes)
                        (array_set (replicate (length paramTypes) Undefined) (pm_index param)
                           (Str (js_String
                                   (extract_value env param request
                                      (extractPathParams (pathname u) request)
                                      (fromEntries (searchParams u)) (parse_body request))
                                 @ G @ M @ P)))), w))"
proof (intro conjI impI)
  show "executeParameterPipes v pm param pt =
           io_bind (executePipes v g
                      \<lparr>am_type = pm_type param, am_metatype = pt, am_data = pm_key param\<rparr>)
             (\<lambda>v1. io_bind (executePipes v1 m
                               \<lparr>am_type = pm_type param, am_metatype = pt, am_data = pm_key param\<rparr>)
               (\<lambda>v2. executePipes v2 p
                        \<lparr>am_type = pm_type param, am_metatype = pt, am_data = pm_key param\<rparr>))"
    using assms
    by (simp add: executeParameterPipes_def io_bind_of_Inr executePipes_append Let_def
        io_bind_return_left)
next
  show "executeParameterPipes (Str input)
             \<lparr>globalPipes = [OfInstance (marker_pipe G)], classPipes = [],
              methodPipes = [OfInstance (marker_pipe M)],
              paramPipes = (\<lambda>i. [OfInstance (marker_pipe P)])\<rparr> param pt w
           = (Inr (Str (input @ G @ M @ P)), w)"
    using marker_pipes_run[of "Str input" G M P param pt w] by simp
next
  show "resolveParams_loop env pm True pts rq pp qp b (param # params) acc =
             io_bind
               (executePipes (extract_value env param rq pp qp b) (g @ m @ p)
                  \<lparr>am_type = pm_type param, am_metatype = paramType_at pts (pm_index param),
                   am_data = pm_key param\<rparr>)
               (\<lambda>v'. resolveParams_loop env pm True pts rq pp qp b params
                       (array_set acc (pm_index param) v'))"
    by (rule resolveParams_loop_step[OF assms])
next
  assume "req_url request = Some u"
  then show "resolveParams env [param] paramTypes
                \<lparr>globalPipes = [OfInstance (marker_pipe G)], classPipes = [],
                 methodPipes = [OfInstance (marker_pipe M)],
                 paramPipes = (\<lambda>i. [OfInstance (marker_pipe P)])\<rparr> request True w
              = (Inr (fill_undefined (length paramTypes)
                        (array_set (replicate (length paramTypes) Undefined) (pm_index param)
                           (Str (js_String
                                   (extract_value env param request
                                      (extractPathParams (pathname u) request)
                                      (fromEntries (searchParams u)) (parse_body request))
                                 @ G @ M @ P)))), w)"
    by (rule resolveParams_single_marked)
qed

theorem pipes_global_method_parameter_witness:
  "getGlobalPipes
     \<lparr>globalPipes = [OfInstance (marker_pipe ''-G'')], classPipes = [],
      methodPipes = [OfClass (Inr (marker_pipe ''-M''))],
      paramPipes = pipes_at 0 [OfInstance (marker_pipe ''-P'')]\<rparr>
     = Inr [marker_pipe ''-G'' :: unit pipe]
   \<and> executeParameterPipes (Str ''v'')
       \<lparr>globalPipes = [OfInstance (marker_pipe ''-G'')], classPipes = [],
        methodPipes = [OfClass (Inr (marker_pipe ''-M''))],
        paramPipes = pipes_at 0 [OfInstance (marker_pipe ''-P'')]\<rparr>
       \<lparr>pm_index = 0, pm_type = QUERY, pm_key = Some ''q''\<rparr> None ()
     = (Inr (Str ''v-G-M-P''), ())
   \<and> req_url
       \<lparr>req_url = Some \<lparr>pathname = ''/search'', searchParams = [(''q'', ''v'')]\<rparr>,
        req_method = ''GET'', req_headers = [], req_params = Some Map.empty,
        req_json = None, req_formData = None\<rparr>
     = Some \<lparr>pathname = ''/search'', searchParams = [(''q'', ''v'')]\<rparr>
   \<and> resolveParams fetch_env
       [\<lparr>pm_index = 0, pm_type = QUERY, pm_key = Some ''q''\<rparr>] [''String'', ''Object'']
       \<lparr>globalPipes = [OfInstance (marker_pipe ''-G'')], classPipes = [],
        methodPipes = [OfInstance (marker_pipe ''-M'')],
        paramPipes = (\<lambda>i. [OfInstance (marker_pipe ''-P'')])\<rparr>
       \<lparr>req_url = Some \<lparr>pathname = ''/search'', searchParams = [(''q'', ''v'')]\<rparr>,
        req_method = ''GET'', req_headers = [], req_params = Some Map.empty,
        req_json = None, req_formData = None\<rparr>
       True ()
     = (Inr [Str ''v-G-M-P'', RawRequest], ())"
proof -
  let ?pm = "\<lparr>globalPipes = [OfInstance (marker_pipe ''-G'')], classPipes = [],
      methodPipes = [OfClass (Inr (marker_pipe ''-M''))],
      paramPipes = pipes_at 0 [OfInstance (marker_pipe ''-P'')]\<rparr>
      :: unit pipe_metadata"
  let ?param = "\<lparr>pm_index = 0, pm_type = QUERY, pm_key = Some ''q''\<rparr>"
  let ?u = "\<lparr>pathname = ''/search'', searchParams = [(''q'', ''v'')]\<rparr>"
  let ?req = "\<lparr>req_url = Some ?u, req_method = ''GET'', req_headers = [],
      req_params = Some Map.empty, req_json = None, req_formData = None\<rparr>"
  have g: "getGlobalPipes ?pm = Inr [marker_pipe ''-G'']"
    by (simp add: getGlobalPipes_def createPipeInstances_def)
  have m: "resolvePipes ?pm = Inr [marker_pipe ''-M'']"
    by (simp add: resolvePipes_def createPipeInstances_def)
  have p: "resolveParameterPipes ?pm (pm_index ?param) = Inr [marker_pipe ''-P'']"
    by (simp add: resolveParameterPipes_def createPipeInstances_def pipes_at_def)
  have u: "req_url ?req = Some ?u"
    by simp
  note claim = pipes_global_method_parameter [OF g m p]
  note run = claim [of "Str ''v''" None, THEN conjunct1, THEN fun_cong, of "()"]
  note whole = claim
    [where request = ?req and u = ?u and env = fetch_env
       and paramTypes = "[''String'', ''Object'']"
       and G = "''-G''" and M = "''-M''" and P = "''-P''" and w = "()",
     THEN conjunct2, THEN conjunct2, THEN conjunct2, THEN mp, OF u]
  show ?thesis
    using g u run whole
    by (simp add: io_bind_def io_return_def marker_pipe_def array_set_def
        fill_undefined_def key_given_def the_key_def fromEntries_def object_get_def
        string_properties_def)
qed

lemma array_set_length: "length arr \<le> length (array_set arr i v)"
  by (simp add: array_set_def)

lemma resolveParams_loop_length:
  "resolveParams_loop env pm c pts rq pp qp b params arr w = (Inr raw, w') \<Longrightarrow>
   length arr \<le> length raw"
proof (induction params arbitrary: arr w)
  case Nil
  then show ?case by (simp add: io_return_def)
next
  case (Cons param params)
  show ?case
  proof (cases c)
    case True
    with Cons.prems obtain tv w1 where
      "resolveParams_loop env pm c pts rq pp qp b params
         (array_set arr (pm_index param) tv) w1 = (Inr raw, w')"
      by (auto simp: Let_def io_bind_def split: prod.splits sum.splits)
    from Cons.IH[OF this] show ?thesis
      using array_set_length[of arr "pm_index param" tv] by simp
  next
    case False
    with Cons.prems have
      "resolveParams_loop env pm c pts rq pp qp b params
         (array_set arr (pm_index param) (extract_value env param rq pp qp b)) w
         = (Inr raw, w')"
      by (simp add: Let_def)
    from Cons.IH[OF this] show ?thesis
      using array_set_length[of arr "pm_index param"] by (meson le_trans)
  qed
qed

lemma fill_undefined_nth:
  assumes "i < n" and "n \<le> length raw"
  shows "fill_undefined n raw ! i = (if is_undefined (raw ! i) then RawRequest else raw ! i)"
  using assms by (simp add: fill_undefined_def nth_append)

lemma fill_undefined_length: "length (fill_undefined n raw) = length raw"
  by (simp add: fill_undefined_def)

text \<open>
  Claim C10.  In \<open>ParamResolver.resolveParams\<close> every parameter slot (every index below
  the number of declared parameters) whose value is \<open>undefined\<close> once the loop over the
  bindings has extracted and piped the values receives the request object, whether or not a
  binding was declared for it: a declared query parameter whose key is missing is replaced
  like a parameter without decorator.  Here \<open>raw\<close> is the array the loop leaves and \<open>args\<close>
  the array the handler is called with.
\<close>

theorem resolveParams_undefined_slots_get_request:
  assumes "resolveParams env params paramTypes pm request container w = (Inr args, w')"
  shows "\<exists>u raw.
           req_url request = Some u \<and>
           resolveParams_loop env pm container paramTypes request
             (extractPathParams (pathname u) request) (fromEntries (searchParams u))
             (parse_body request) params (replicate (length paramTypes) Undefined) w
             = (Inr raw, w') \<and>
           length args = length raw \<and> length paramTypes \<le> length args \<and>
           (\<forall>i < length paramTypes.
              args ! i = (if is_undefined (raw ! i) then RawRequest else raw ! i))"
proof -
  from assms obtain u where u: "req_url request = Some u"
    by (cases "req_url request")
       (auto simp: resolveParams_def new_URL_def io_bind_def io_of_def)
  let ?loop = "resolveParams_loop env pm container paramTypes request
             (extractPathParams (pathname u) request) (fromEntries (searchParams u))
             (parse_body request) params (replicate (length paramTypes) Undefined)"
  from assms u obtain raw where raw: "?loop w = (Inr raw, w')"
    and args: "args = fill_undefined (length paramTypes) raw"
    by (auto simp: resolveParams_def new_URL_def io_bind_def io_of_def Let_def io_return_def
        split: prod.splits sum.splits)
  from resolveParams_loop_length[OF raw] have len: "length paramTypes \<le> length raw" by simp
  show ?thesis
    using u raw args len fill_undefined_nth[OF _ len] fill_undefined_length by auto
qed

theorem resolveParams_undefined_slots_get_request_witness:
  "resolveParams fetch_env
     [\<lparr>pm_index = 1, pm_type = QUERY, pm_key = Some ''q''\<rparr>,
      \<lparr>pm_index = 0, pm_type = QUERY, pm_key = Some ''page''\<rparr>]
     [''String'', ''String'', ''Object'']
     \<lparr>globalPipes = [], classPipes = [], methodPipes = [], paramPipes = pipes_at 0 []\<rparr>
     \<lparr>req_url = Some \<lparr>pathname = ''/search'', searchParams = [(''page'', ''2'')]\<rparr>,
      req_method = ''GET'', req_headers = [], req_params = Some Map.empty,
      req_json = None, req_formData = None\<rparr>
     True ()
   = (Inr [Str ''2'', RawRequest, RawRequest], ())
   \<and> (\<exists>raw. length raw = 3 \<and>
          (\<forall>i < 3. [Str ''2'', RawRequest, RawRequest] ! i
                    = (if is_undefined (raw ! i) then RawRequest else raw ! i)))"
proof -
  let ?params = "[\<lparr>pm_index = 1, pm_type = QUERY, pm_key = Some ''q''\<rparr>,
      \<lparr>pm_index = 0, pm_type = QUERY, pm_key = Some ''page''\<rparr>]"
  let ?pm = "\<lparr>globalPipes = [], classPipes = [], methodPipes = [],
      paramPipes = pipes_at 0 []\<rparr> :: unit pipe_metadata"
  let ?req = "\<lparr>req_url = Some \<lparr>pathname = ''/search'', searchParams = [(''page'', ''2'')]\<rparr>,
      req_method = ''GET'', req_headers = [], req_params = Some Map.empty,
      req_json = None, req_formData = None\<rparr>"
  have run: "resolveParams fetch_env ?params [''String'', ''String'', ''Object''] ?pm ?req True ()
     = (Inr [Str ''2'', RawRequest, RawRequest], ())"
    by (simp add: resolveParams_def new_URL_def io_bind_def io_of_def io_return_def
        Let_def key_given_def the_key_def fromEntries_def object_get_def
        string_properties_def object_prototype_def
        executeParameterPipes_def getGlobalPipes_def resolvePipes_def
        resolveParameterPipes_def createPipeInstances_def array_set_def fill_undefined_def
        extractPathParams_def parse_body_def pipes_at_def)
  from resolveParams_undefined_slots_get_request [OF run]
  obtain raw where len: "length [Str ''2'', RawRequest, RawRequest] = length raw"
    and slots: "\<forall>i < length [''String'', ''String'', ''Object''].
        [Str ''2'', RawRequest, RawRequest] ! i
        = (if is_undefined (raw ! i) then RawRequest else raw ! i)"
    by blast
  from len have len3: "length raw = 3" by simp
  from slots have slots3: "\<forall>i < 3. [Str ''2'', RawRequest, RawRequest] ! i
        = (if is_undefined (raw ! i) then RawRequest else raw ! i)" by simp
  from run len3 slots3 show ?thesis by blast
qed

text \<open>
  A key that the request does not carry but that every object inherits is not
  \<open>undefined\<close>: the handler receives the inherited member, not the request.
\<close>

lemma resolveParams_inherited_key:
  "resolveParams fetch_env
     [\<lparr>pm_index = 0, pm_type = QUERY, pm_key = Some ''toString''\<rparr>] [''String'']
     \<lparr>globalPipes = [], classPipes = [], methodPipes = [], paramPipes = pipes_at 0 []\<rparr>
     \<lparr>req_url = Some \<lparr>pathname = ''/search'', searchParams = []\<rparr>,
      req_method = ''GET'', req_headers = [], req_params = Some Map.empty,
      req_json = None, req_formData = None\<rparr>
     True ()
   = (Inr [Fun ''function toString() { [native code] }''], ())"
  by (simp add: resolveParams_def new_URL_def io_bind_def io_of_def io_return_def
      Let_def key_given_def the_key_def fromEntries_def object_get_def
      string_properties_def object_prototype_def fetch_env_def
      executeParameterPipes_def getGlobalPipes_def resolvePipes_def
      resolveParameterPipes_def createPipeInstances_def array_set_def fill_undefined_def
      extractPathParams_def parse_body_def pipes_at_def)


section \<open>Properties of the guard stage\<close>

lemma instantiate_skipping_append:
  "instantiate_skipping (xs @ ys) = instantiate_skipping xs @ instantiate_skipping ys"
  by (induction xs rule: instantiate_skipping.induct) simp_all

lemma instantiate_skipping_classes:
  "instantiate_skipping (map (OfClass \<circ> Inr) gs) = gs"
  by (induction gs) simp_all

lemma instantiate_all_classes:
  "instantiate_all (map (OfClass \<circ> Inr) gs) = Inr gs"
  by (induction gs) simp_all

lemma canActivate_append:
  "GuardExecutor_canActivate (xs @ ys) ctx w =
     (case GuardExecutor_canActivate xs ctx w of
        (r, w') \<Rightarrow> if canActivate r then GuardExecutor_canActivate ys ctx w' else (r, w'))"
proof (induction xs arbitrary: w)
  case Nil
  show ?case by simp
next
  case (Cons g xs)
  show ?case
    by (simp add: Cons.IH rejected_def
        split: prod.splits sum.splits guard_return.splits stream_result.splits)
qed

lemma request_guards_order:
  "request_guards app route =
     (case getGlobalGuards (app_globalGuards app) of
        Inl e \<Rightarrow> Inl e
      | Inr globalGuards \<Rightarrow>
          Inr (globalGuards @ instantiate_skipping (map OfClass (md_controllerGuards route))
                 @ instantiate_skipping (map OfClass (md_methodGuards route))))"
  by (simp add: request_guards_def resolveGuards_def instantiate_skipping_append Let_def)

lemma request_guards_classes:
  assumes "app_globalGuards app = map Inr gs"
    and "md_controllerGuards route = map Inr cs"
    and "md_methodGuards route = map Inr ms"
  shows "request_guards app route = Inr (gs @ cs @ ms)"
  using assms
  by (simp add: request_guards_order getGlobalGuards_def instantiate_all_classes
      instantiate_skipping_classes)

lemma handler_try_guards:
  assumes "request_guards app route = Inr guards"
  shows "handler_try env app route req w =
           (case GuardExecutor_canActivate guards
                   \<lparr>ctx_request = req, ctx_class = rt_controllerClass route,
                    ctx_handler = rt_methodName route\<rparr> w of
              (r, w1) \<Rightarrow>
                if canActivate r then invoke_handler env app route req w1
                else (case guard_rejection env r of
                        Inl e \<Rightarrow> (Inl e, w1)
                      | Inr resp \<Rightarrow> (Inr (Resp resp), w1)))"
proof (cases guards)
  case Nil
  with assms show ?thesis
    by (simp add: handler_try_def io_bind_def io_of_def guard_stage_def io_return_def Let_def)
next
  case (Cons g gs)
  with assms show ?thesis
    by (simp add: handler_try_def io_bind_def io_of_def guard_stage_def io_return_def Let_def
        split: prod.splits sum.splits)
qed

lemma global_rejection_stops:
  assumes gs: "getGlobalGuards (app_globalGuards app) = Inr globalGuards"
    and run: "GuardExecutor_canActivate globalGuards
            \<lparr>ctx_request = req, ctx_class = rt_controllerClass route,
             ctx_handler = rt_methodName route\<rparr> w = (r, w1)"
    and rej: "\<not> canActivate r"
  shows "handler_try env app route req w =
           (case guard_rejection env r of
              Inl e \<Rightarrow> (Inl e, w1)
            | Inr resp \<Rightarrow> (Inr (Resp resp), w1))"
proof -
  let ?ctx = "\<lparr>ctx_request = req, ctx_class = rt_controllerClass route,
             ctx_handler = rt_methodName route\<rparr>"
  let ?locals = "instantiate_skipping (map OfClass (md_controllerGuards route))
                 @ instantiate_skipping (map OfClass (md_methodGuards route))"
  have guards: "request_guards app route = Inr (globalGuards @ ?locals)"
    using gs by (simp add: request_guards_order)
  have all: "GuardExecutor_canActivate (globalGuards @ ?locals) ?ctx w = (r, w1)"
    using run rej by (simp add: canActivate_append)
  show ?thesis
    using rej by (simp add: handler_try_guards[OF guards] all)
qed

lemma single_guard_verdict:
  "canActivate (fst (GuardExecutor_canActivate [g] ctx v)) =
     (case fst (g ctx v) of
        Inr (Plain x) \<Rightarrow> truthy x
      | Inr (Stream (Emits x)) \<Rightarrow> truthy x
      | _ \<Rightarrow> False)
   \<and> snd (GuardExecutor_canActivate [g] ctx v) = snd (g ctx v)"
  by (simp add: rejected_def
      split: prod.splits sum.splits guard_return.splits stream_result.splits)

text \<open>
  Claim C4.  For a matched request the guards run one after the other in the order global,
  controller-level, method-level, and the first guard that gives a falsy result or throws
  ends the chain.
  \<^item> The guard list of the request is the global guards followed by the controller-level
    and the method-level ones: with guard classes that can be instantiated on all three
    levels it is their instances in that order, and in general the global guards followed
    by those local guards that can be instantiated.
  \<^item> The \<open>try\<close> block of the handler runs \<open>GuardExecutor.canActivate\<close> over that list on
    the request; when the verdict is to pass it goes on to the parameters and the handler
    in the world the guards left, and otherwise it ends with the rejection response.
  \<^item> A single guard passes exactly when it gives a truthy value (a throw, a falsy value, a
    stream that fails or ends empty all reject).  The verdict of a list \<open>xs @ ys\<close> is the
    verdict of \<open>xs\<close> when that rejects, with the world as \<open>xs\<close> left it, and otherwise the
    verdict of \<open>ys\<close> run after \<open>xs\<close>.
  \<^item> So when the global guards reject, the \<open>try\<close> block ends with the rejection and the
    world the global guards left: no controller-level or method-level guard, pipe or
    handler has run.
\<close>

theorem guards_run_global_controller_method:
  "(app_globalGuards app = map Inr gs \<and> md_controllerGuards route = map Inr cs \<and>
    md_methodGuards route = map Inr ms
      \<longrightarrow> request_guards app route = Inr (gs @ cs @ ms)
          \<and> handler_try env app route req w =
              (case GuardExecutor_canActivate (gs @ cs @ ms)
                      \<lparr>ctx_request = req, ctx_class = rt_controllerClass route,
                       ctx_handler = rt_methodName route\<rparr> w of
                 (r', w') \<Rightarrow>
                   if canActivate r' then invoke_handler env app route req w'
                   else (case guard_rejection env r' of
                           Inl e \<Rightarrow> (Inl e, w')
                         | Inr resp \<Rightarrow> (Inr (Resp resp), w'))))
   \<and> (getGlobalGuards (app_globalGuards app) = Inr globalGuards
      \<longrightarrow> request_guards app route =
            Inr (globalGuards @ instantiate_skipping (map OfClass (md_controllerGuards route))
                   @ instantiate_skipping (map OfClass (md_methodGuards route))))
   \<and> (request_guards app route = Inr guards
      \<longrightarrow> handler_try env app route req w =
            (case GuardExecutor_canActivate guards
                    \<lparr>ctx_request = req, ctx_class = rt_controllerClass route,
                     ctx_handler = rt_methodName route\<rparr> w of
               (r', w') \<Rightarrow>
                 if canActivate r' then invoke_handler env app route req w'
                 else (case guard_rejection env r' of
                         Inl e \<Rightarrow> (Inl e, w')
                       | Inr resp \<Rightarrow> (Inr (Resp resp), w'))))
   \<and> canActivate (fst (GuardExecutor_canActivate [g] ctx v)) =
       (case fst (g ctx v) of
          Inr (Plain x) \<Rightarrow> truthy x
        | Inr (Stream (Emits x)) \<Rightarrow> truthy x
        | _ \<Rightarrow> False)
   \<and> snd (GuardExecutor_canActivate [g] ctx v) = snd (g ctx v)
   \<and> GuardExecutor_canActivate (xs @ ys) ctx v =
       (case GuardExecutor_canActivate xs ctx v of
          (r', v') \<Rightarrow> if canActivate r' then GuardExecutor_canActivate ys ctx v'
                      else (r', v'))
   \<and> (getGlobalGuards (app_globalGuards app) = Inr globalGuards \<and>
      GuardExecutor_canActivate globalGuards
        \<lparr>ctx_request = req, ctx_class = rt_controllerClass route,
         ctx_handler = rt_methodName route\<rparr> w = (r, w1) \<and>
      \<not> canActivate r
      \<longrightarrow> handler_try env app route req w =
            (case guard_rejection env r of
               Inl e \<Rightarrow> (Inl e, w1)
             | Inr resp \<Rightarrow> (Inr (Resp resp), w1)))"
proof (intro conjI impI)
  assume h: "app_globalGuards app = map Inr gs \<and> md_controllerGuards route = map Inr cs \<and>
    md_methodGuards route = map Inr ms"
  show listed: "request_guards app route = Inr (gs @ cs @ ms)"
    by (rule request_guards_classes [OF h [THEN conjunct1] h [THEN conjunct2, THEN conjunct1]
          h [THEN conjunct2, THEN conjunct2]])
  show "handler_try env app route req w =
              (case GuardExecutor_canActivate (gs @ cs @ ms)
                      \<lparr>ctx_request = req, ctx_class = rt_controllerClass route,
                       ctx_handler = rt_methodName route\<rparr> w of
                 (r', w') \<Rightarrow>
                   if canActivate r' then invoke_handler env app route req w'
                   else (case guard_rejection env r' of
                           Inl e \<Rightarrow> (Inl e, w')
                         | Inr resp \<Rightarrow> (Inr (Resp resp), w')))"
    by (rule handler_try_guards [OF listed])
next
  assume "getGlobalGuards (app_globalGuards app) = Inr globalGuards"
  then show "request_guards app route =
            Inr (globalGuards @ instantiate_skipping (map OfClass (md_controllerGuards route))
                   @ instantiate_skipping (map OfClass (md_methodGuards route)))"
    by (simp add: request_guards_order)
next
  assume "request_guards app route = Inr guards"
  then show "handler_try env app route req w =
            (case GuardExecutor_canActivate guards
                    \<lparr>ctx_request = req, ctx_class = rt_controllerClass route,
                     ctx_handler = rt_methodName route\<rparr> w of
               (r', w') \<Rightarrow>
                 if canActivate r' then invoke_handler env app route req w'
                 else (case guard_rejection env r' of
                         Inl e \<Rightarrow> (Inl e, w')
                       | Inr resp \<Rightarrow> (Inr (Resp resp), w')))"
    by (rule handler_try_guards)
next
  show "canActivate (fst (GuardExecutor_canActivate [g] ctx v)) =
       (case fst (g ctx v) of
          Inr (Plain x) \<Rightarrow> truthy x
        | Inr (Stream (Emits x)) \<Rightarrow> truthy x
        | _ \<Rightarrow> False)"
    by (rule single_guard_verdict [THEN conjunct1])
next
  show "snd (GuardExecutor_canActivate [g] ctx v) = snd (g ctx v)"
    by (rule single_guard_verdict [THEN conjunct2])
next
  show "GuardExecutor_canActivate (xs @ ys) ctx v =
       (case GuardExecutor_canActivate xs ctx v of
          (r', v') \<Rightarrow> if canActivate r' then GuardExecutor_canActivate ys ctx v'
                      else (r', v'))"
    by (rule canActivate_append)
next
  assume h: "getGlobalGuards (app_globalGuards app) = Inr globalGuards \<and>
      GuardExecutor_canActivate globalGuards
        \<lparr>ctx_request = req, ctx_class = rt_controllerClass route,
         ctx_handler = rt_methodName route\<rparr> w = (r, w1) \<and>
      \<not> canActivate r"
  show "handler_try env app route req w =
            (case guard_rejection env r of
               Inl e \<Rightarrow> (Inl e, w1)
             | Inr resp \<Rightarrow> (Inr (Resp resp), w1))"
    by (rule global_rejection_stops [OF h [THEN conjunct1] h [THEN conjunct2, THEN conjunct1]
          h [THEN conjunct2, THEN conjunct2]])
qed

theorem guards_run_global_controller_method_witness:
  "app_globalGuards
     ((bare_app [])\<lparr>app_globalGuards := [Inr (logging_guard ''G'' (Bool True))]\<rparr>)
     = map Inr [logging_guard ''G'' (Bool True)]
   \<and> md_controllerGuards
       ((bare_route ''/x'' logging_handler)
          \<lparr>md_controllerGuards := [Inr (logging_guard ''C'' (Bool True))],
           md_methodGuards := [Inr (logging_guard ''M'' (Bool False))]\<rparr>)
     = map Inr [logging_guard ''C'' (Bool True)]
   \<and> md_methodGuards
       ((bare_route ''/x'' logging_handler)
          \<lparr>md_controllerGuards := [Inr (logging_guard ''C'' (Bool True))],
           md_methodGuards := [Inr (logging_guard ''M'' (Bool False))]\<rparr>)
     = map Inr [logging_guard ''M'' (Bool False)]
   \<and> handler_try fetch_env
       ((bare_app [])\<lparr>app_globalGuards := [Inr (logging_guard ''G'' (Bool True))]\<rparr>)
       ((bare_route ''/x'' logging_handler)
          \<lparr>md_controllerGuards := [Inr (logging_guard ''C'' (Bool True))],
           md_methodGuards := [Inr (logging_guard ''M'' (Bool False))]\<rparr>)
       (get_request ''/x'') []
     = (Inr (Resp \<lparr>status = 403,
                   body = Obj [(''error'', Str msg_guard_failed),
                               (''message'', Str msg_guard_failed)],
                   content_type = Some ''application/json''\<rparr>),
        [''G'', ''C'', ''M''])
   \<and> handler_try fetch_env
       ((bare_app [])\<lparr>app_globalGuards := [Inr (logging_guard ''G'' (Bool True))]\<rparr>)
       ((bare_route ''/x'' logging_handler)
          \<lparr>md_controllerGuards := [Inr (logging_guard ''C'' (Bool True))],
           md_methodGuards := [Inr (logging_guard ''M'' (Bool True))]\<rparr>)
       (get_request ''/x'') []
     = (Inr (Resp \<lparr>status = 200, body = Str ''done'', content_type = Some ''text/plain''\<rparr>),
        [''G'', ''C'', ''M'', ''handler''])
   \<and> getGlobalGuards
       (app_globalGuards
          ((bare_app [])\<lparr>app_globalGuards := [Inr (logging_guard ''G'' (Bool False))]\<rparr>))
     = Inr [logging_guard ''G'' (Bool False)]
   \<and> GuardExecutor_canActivate [logging_guard ''G'' (Bool False)]
       \<lparr>ctx_request = get_request ''/x'', ctx_class = ''Controller'', ctx_handler = ''method''\<rparr>
       []
     = (rejected (Error ''Error'' msg_guard_failed), [''G''])
   \<and> \<not> canActivate (rejected (Error ''Error'' msg_guard_failed))
   \<and> handler_try fetch_env
       ((bare_app [])\<lparr>app_globalGuards := [Inr (logging_guard ''G'' (Bool False))]\<rparr>)
       ((bare_route ''/x'' logging_handler)
          \<lparr>md_methodGuards := [Inr (logging_guard ''L'' (Bool True))]\<rparr>)
       (get_request ''/x'') []
     = (Inr (Resp \<lparr>status = 403,
                   body = Obj [(''error'', Str msg_guard_failed),
                               (''message'', Str msg_guard_failed)],
                   content_type = Some ''application/json''\<rparr>),
        [''G''])"
proof -
  let ?G = "logging_guard ''G'' (Bool True)"
  let ?C = "logging_guard ''C'' (Bool True)"
  let ?M = "logging_guard ''M'' (Bool False)"
  let ?M' = "logging_guard ''M'' (Bool True)"
  let ?app = "(bare_app [])\<lparr>app_globalGuards := [Inr ?G]\<rparr>"
  let ?route = "(bare_route ''/x'' logging_handler)
          \<lparr>md_controllerGuards := [Inr ?C], md_methodGuards := [Inr ?M]\<rparr>"
  let ?route' = "(bare_route ''/x'' logging_handler)
          \<lparr>md_controllerGuards := [Inr ?C], md_methodGuards := [Inr ?M']\<rparr>"
  let ?req = "get_request ''/x''"
  let ?forbidden = "\<lparr>status = 403,
                   body = Obj [(''error'', Str msg_guard_failed),
                               (''message'', Str msg_guard_failed)],
                   content_type = Some ''application/json''\<rparr>"
  note claim = guards_run_global_controller_method
  have g: "app_globalGuards ?app = map Inr [?G]"
    by simp
  have c: "md_controllerGuards ?route = map Inr [?C]"
    by simp
  have m: "md_methodGuards ?route = map Inr [?M]"
    by simp
  have c': "md_controllerGuards ?route' = map Inr [?C]"
    by simp
  have m': "md_methodGuards ?route' = map Inr [?M']"
    by simp
  have resp: "guard_rejection fetch_env (rejected (Error ''Error'' msg_guard_failed))
      = Inr ?forbidden"
    by (simp add: guard_rejection_def rejected_def new_Response_def fetch_env_def
        msg_guard_failed_def)
  note chain = claim
    [where app = ?app and route = ?route and gs = "[?G]" and cs = "[?C]" and ms = "[?M]"
       and env = fetch_env and req = ?req and w = "[]",
     THEN conjunct1, THEN mp, OF conjI [OF g conjI [OF c m]], THEN conjunct2]
  have rej: "\<not> canActivate (rejected (Error ''Error'' msg_guard_failed))"
    by (simp add: rejected_def)
  have stopped: "handler_try fetch_env ?app ?route ?req []
      = (Inr (Resp ?forbidden), [''G'', ''C'', ''M''])"
    using chain rej by (simp add: logging_guard_def resp)
  note chain' = claim
    [where app = ?app and route = ?route' and gs = "[?G]" and cs = "[?C]" and ms = "[?M']"
       and env = fetch_env and req = ?req and w = "[]",
     THEN conjunct1, THEN mp, OF conjI [OF g conjI [OF c' m']], THEN conjunct2]
  have passed: "handler_try fetch_env ?app ?route' ?req []
      = (Inr (Resp \<lparr>status = 200, body = Str ''done'', content_type = Some ''text/plain''\<rparr>),
         [''G'', ''C'', ''M'', ''handler''])"
    using chain'
    by (simp add: logging_guard_def invoke_handler_def resolveParams_def new_URL_def
        get_request_def io_bind_def io_of_def io_return_def Let_def bare_route_def
        fill_undefined_def logging_handler_def)
  let ?G0 = "logging_guard ''G'' (Bool False)"
  let ?app0 = "(bare_app [])\<lparr>app_globalGuards := [Inr ?G0]\<rparr>"
  let ?route0 = "(bare_route ''/x'' logging_handler)
          \<lparr>md_methodGuards := [Inr (logging_guard ''L'' (Bool True))]\<rparr>"
  have gs: "getGlobalGuards (app_globalGuards ?app0) = Inr [?G0]"
    by (simp add: getGlobalGuards_def)
  have run: "GuardExecutor_canActivate [?G0]
            \<lparr>ctx_request = ?req, ctx_class = ''Controller'', ctx_handler = ''method''\<rparr> []
          = (rejected (Error ''Error'' msg_guard_failed), [''G''])"
    by (simp add: logging_guard_def)
  have run': "GuardExecutor_canActivate [?G0]
            \<lparr>ctx_request = ?req, ctx_class = rt_controllerClass ?route0,
             ctx_handler = rt_methodName ?route0\<rparr> []
          = (rejected (Error ''Error'' msg_guard_failed), [''G''])"
    by (simp add: logging_guard_def)
  note stop = claim
      [where app = ?app0 and globalGuards = "[?G0]"
         and route = ?route0 and req = ?req and w = "[]"
         and r = "rejected (Error ''Error'' msg_guard_failed)" and ?w1.0 = "[''G'']"
         and env = fetch_env,
       THEN conjunct2, THEN conjunct2, THEN conjunct2, THEN conjunct2, THEN conjunct2,
       THEN conjunct2, THEN mp, OF conjI [OF gs conjI [OF run' rej]]]
  have global: "handler_try fetch_env ?app0 ?route0 ?req [] = (Inr (Resp ?forbidden), [''G''])"
    using stop by (simp add: resp)
  show ?thesis
    using g c m stopped passed gs run rej global by simp
qed


section \<open>Properties of the exception filter dispatch\<close>

lemma request_filters_order:
  "request_filters app route =
     (case getGlobalFilters (app_globalFilters app) of
        Inl e \<Rightarrow> Inl e
      | Inr globalFilters \<Rightarrow>
          Inr (globalFilters @ instantiate_skipping (md_controllerFilters route)
                 @ instantiate_skipping (md_methodFilters route)))"
  by (simp add: request_filters_def resolveFilters_def instantiate_skipping_append Let_def)

text \<open>
  Claim C3, as stated: the filter list is method-level, then controller-level, then global
  filters.  With one answering filter on each level and a handler that throws, the claim
  has the method-level filter answer; in the code the global filter answers and the two
  others never run.
\<close>

theorem filter_order_counterexample:
  "route_handler fetch_env
     ((bare_app [])\<lparr>app_globalFilters := [OfClass (Inr (answering_filter ''G''))]\<rparr>)
     ((bare_route ''/x'' throwing_handler)
        \<lparr>md_controllerFilters := [OfClass (Inr (answering_filter ''C''))],
         md_methodFilters := [OfClass (Inr (answering_filter ''M''))]\<rparr>)
     (get_request ''/x'') []
   = (Inr (Resp \<lparr>status = 500, body = Str ''G'', content_type = None\<rparr>), [''handler'', ''G''])
   \<and> Resp \<lparr>status = 500, body = Str ''G'', content_type = None\<rparr>
     \<noteq> Resp \<lparr>status = 500, body = Str ''M'', content_type = None\<rparr>"
  by (simp add: route_handler_def io_catch_def handler_try_def request_guards_def
      resolveGuards_def getGlobalGuards_def bare_app_def bare_route_def io_bind_def io_of_def
      guard_stage_def invoke_handler_def resolveParams_def new_URL_def get_request_def Let_def
      route_pipes_def extractPathParams_def fill_undefined_def throwing_handler_def
      handler_catch_def request_filters_def resolveFilters_def getGlobalFilters_def
      answering_filter_def io_return_def)

text \<open>
  Claim C3, amended.  On an error thrown out of the \<open>try\<close> block of a matched request's
  handler (instantiating the global guards, building the rejection response, the
  parameter/pipe stage, the handler; what a guard itself throws is turned into a rejection
  by \<open>GuardExecutor.canActivate\<close> and is not such an error), the dispatcher builds the filter
  list in the order global filters, then controller-level, then method-level filters.  It
  tries each in order: the first filter whose \<open>catch\<close> returns a \<open>Response\<close> is used,
  filters that return nothing are passed over, and so are filters that throw.
\<close>

theorem filters_run_global_controller_method:
  assumes "handler_try env app route req w = (Inl error, w1)"
    and "getGlobalFilters (app_globalFilters app) = Inr globalFilters"
  shows "route_handler env app route req w =
           (case ExceptionFilterExecutor_execute env error
                   (globalFilters @ instantiate_skipping (md_controllerFilters route)
                      @ instantiate_skipping (md_methodFilters route))
                   \<lparr>host_request = req\<rparr> w1 of
              (Inl e, w2) \<Rightarrow> (Inl e, w2)
            | (Inr r, w2) \<Rightarrow> (Inr (Resp r), w2))
       \<and> (\<forall>x f fs host v.
            ExceptionFilterExecutor_execute env x (f # fs) host v =
              (case f x host v of
                 (Inr (Some r), v') \<Rightarrow> (Inr r, v')
               | (Inr None, v') \<Rightarrow> ExceptionFilterExecutor_execute env x fs host v'
               | (Inl filterError, v') \<Rightarrow> ExceptionFilterExecutor_execute env x fs host v'))"
  using assms
  by (simp add: route_handler_def io_catch_def handler_catch_def request_filters_order
      io_bind_def io_of_def io_return_def split: prod.splits sum.splits)

theorem filters_run_global_controller_method_witness:
  "handler_try fetch_env
     ((bare_app [])\<lparr>app_globalFilters :=
        [OfInstance (silent_filter ''G''), OfInstance (failing_filter ''H'')]\<rparr>)
     ((bare_route ''/x'' throwing_handler)
        \<lparr>md_controllerFilters := [OfClass (Inr (answering_filter ''C''))],
         md_methodFilters := [OfClass (Inr (answering_filter ''M''))]\<rparr>)
     (get_request ''/x'') []
   = (Inl (Error ''Error'' ''boom''), [''handler''])
   \<and> route_handler fetch_env
     ((bare_app [])\<lparr>app_globalFilters :=
        [OfInstance (silent_filter ''G''), OfInstance (failing_filter ''H'')]\<rparr>)
     ((bare_route ''/x'' throwing_handler)
        \<lparr>md_controllerFilters := [OfClass (Inr (answering_filter ''C''))],
         md_methodFilters := [OfClass (Inr (answering_filter ''M''))]\<rparr>)
     (get_request ''/x'') []
   = (Inr (Resp \<lparr>status = 500, body = Str ''C'', content_type = None\<rparr>),
      [''handler'', ''G'', ''H'', ''C''])"
proof -
  let ?G = "silent_filter ''G''"
  let ?H = "failing_filter ''H''"
  let ?app = "(bare_app [])\<lparr>app_globalFilters := [OfInstance ?G, OfInstance ?H]\<rparr>"
  let ?route = "(bare_route ''/x'' throwing_handler)
        \<lparr>md_controllerFilters := [OfClass (Inr (answering_filter ''C''))],
         md_methodFilters := [OfClass (Inr (answering_filter ''M''))]\<rparr>"
  have thrown: "handler_try fetch_env ?app ?route (get_request ''/x'') []
               = (Inl (Error ''Error'' ''boom''), [''handler''])"
    by (simp add: handler_try_def request_guards_def resolveGuards_def getGlobalGuards_def
        bare_app_def bare_route_def io_bind_def io_of_def guard_stage_def invoke_handler_def
        resolveParams_def new_URL_def get_request_def Let_def route_pipes_def
        extractPathParams_def fill_undefined_def throwing_handler_def io_return_def)
  have gf: "getGlobalFilters (app_globalFilters ?app) = Inr [?G, ?H]"
    by (simp add: getGlobalFilters_def bare_app_def)
  note run = filters_run_global_controller_method [OF thrown gf, THEN conjunct1]
  show ?thesis
    using thrown run
    by (simp add: bare_route_def answering_filter_def silent_filter_def failing_filter_def)
qed

lemma default_filter_responds:
  assumes "req_url (host_request host) = Some u"
    and "valid_status env (case exception of HttpException m s \<Rightarrow> sint s | _ \<Rightarrow> 500)"
  shows "\<exists>r. DefaultExceptionFilter_catch env exception host = Inr r \<and>
           status r = (case exception of HttpException m s \<Rightarrow> sint s | _ \<Rightarrow> 500) \<and>
           response_message r =
             Str (case exception of
                    HttpException m s \<Rightarrow> m
                  | _ \<Rightarrow> if has_message exception then msg_internal_error
                         else msg_unknown_error)"
  using assms
  by (cases exception)
     (simp_all add: new_URL_def sendErrorResponse_def new_Response_def response_message_def)

text \<open>
  Claim C6, as stated: whatever is thrown and whatever the filter list, dispatch returns a
  response with a non-empty message.  An \<open>HttpException\<close> whose message is the empty string,
  with no filter, gets the default filter's response, and its message is that empty string.
\<close>

theorem default_filter_empty_message_counterexample:
  "ExceptionFilterExecutor_execute fetch_env (HttpException [] 404) []
     \<lparr>host_request = get_request ''/x''\<rparr> ()
   = (Inr \<lparr>status = 404,
           body = Obj [(''statusCode'', Num 404), (''message'', Str []),
                       (''error'', Str ''Not Found''),
                       (''timestamp'', Str (now fetch_env)), (''path'', Str ''/x'')],
           content_type = Some ''application/json''\<rparr>, ())
   \<and> response_message
       \<lparr>status = 404,
        body = Obj [(''statusCode'', Num 404), (''message'', Str []),
                    (''error'', Str ''Not Found''),
                    (''timestamp'', Str (now fetch_env)), (''path'', Str ''/x'')],
        content_type = Some ''application/json''\<rparr>
     = Str []"
  by (simp add: io_of_def new_URL_def get_request_def sendErrorResponse_def new_Response_def
      fetch_env_def getErrorName_def response_message_def)

text \<open>
  Claim C6, amended.  For every thrown error and every filter list (an empty one and one
  where no filter answers included), when the URL of the request can be read and the host
  accepts the status the default filter uses (the status of an \<open>HttpException\<close>, 500
  otherwise), dispatch returns a response and does not throw; a filter that throws is
  passed over.  The response is the one a filter of the list returned, or it is the default
  filter's: its status is that number and its message is the \<open>HttpException\<close>'s own message
  (which may be empty) or, for any other thrown value, one of two fixed non-empty messages.
\<close>

theorem exception_dispatch_responds:
  assumes "req_url (host_request host) = Some u"
    and "valid_status env (case exception of HttpException m s \<Rightarrow> sint s | _ \<Rightarrow> 500)"
  shows "(\<exists>r w'.
           ExceptionFilterExecutor_execute env exception filters host w = (Inr r, w') \<and>
           ((\<exists>f w0 w1. f \<in> set filters \<and> f exception host w0 = (Inr (Some r), w1)) \<or>
            (status r = (case exception of HttpException m s \<Rightarrow> sint s | _ \<Rightarrow> 500) \<and>
             response_message r =
               Str (case exception of
                      HttpException m s \<Rightarrow> m
                    | _ \<Rightarrow> if has_message exception then msg_internal_error
                           else msg_unknown_error))))
       \<and> msg_internal_error \<noteq> [] \<and> msg_unknown_error \<noteq> []"
proof -
  have "\<exists>r w'.
           ExceptionFilterExecutor_execute env exception filters host w = (Inr r, w') \<and>
           ((\<exists>f w0 w1. f \<in> set filters \<and> f exception host w0 = (Inr (Some r), w1)) \<or>
            (status r = (case exception of HttpException m s \<Rightarrow> sint s | _ \<Rightarrow> 500) \<and>
             response_message r =
               Str (case exception of
                      HttpException m s \<Rightarrow> m
                    | _ \<Rightarrow> if has_message exception then msg_internal_error
                           else msg_unknown_error)))"
  proof (induction filters arbitrary: w)
    case Nil
    from default_filter_responds[OF assms] show ?case
      by (auto simp: io_of_def)
  next
    case (Cons f fs)
    obtain res w1 where step: "f exception host w = (res, w1)"
      by (cases "f exception host w")
    from Cons.IH[of w1] obtain r w' where
      rest: "ExceptionFilterExecutor_execute env exception fs host w1 = (Inr r, w')"
      and from_rest: "(\<exists>g w0 w2. g \<in> set fs \<and> g exception host w0 = (Inr (Some r), w2)) \<or>
            (status r = (case exception of HttpException m s \<Rightarrow> sint s | _ \<Rightarrow> 500) \<and>
             response_message r =
               Str (case exception of
                      HttpException m s \<Rightarrow> m
                    | _ \<Rightarrow> if has_message exception then msg_internal_error
                           else msg_unknown_error))"
      by blast
    show ?case
    proof (cases res)
      case (Inl filterError)
      with step rest from_rest show ?thesis by auto
    next
      case (Inr answer)
      show ?thesis
      proof (cases answer)
        case None
        with Inr step rest from_rest show ?thesis by auto
      next
        case (Some result)
        with Inr step have "ExceptionFilterExecutor_execute env exception (f # fs) host w
                              = (Inr result, w1)"
          by simp
        moreover have "f \<in> set (f # fs) \<and> f exception host w = (Inr (Some result), w1)"
          using Inr Some step by simp
        ultimately show ?thesis by blast
      qed
    qed
  qed
  then show ?thesis
    by (simp add: msg_internal_error_def msg_unknown_error_def)
qed

theorem exception_dispatch_responds_witness:
  "req_url (host_request \<lparr>host_request = get_request ''/x''\<rparr>)
     = Some \<lparr>pathname = ''/x'', searchParams = []\<rparr>
   \<and> valid_status fetch_env 500
   \<and> (\<exists>r w'.
        ExceptionFilterExecutor_execute fetch_env (Error ''Error'' ''boom'')
          [silent_filter ''quiet'', failing_filter ''broken'']
          \<lparr>host_request = get_request ''/x''\<rparr> [] = (Inr r, w')
        \<and> status r = 500 \<and> response_message r = Str msg_internal_error)"
proof -
  let ?host = "\<lparr>host_request = get_request ''/x''\<rparr>"
  let ?quiet = "silent_filter ''quiet''"
  let ?broken = "failing_filter ''broken''"
  have u: "req_url (host_request ?host) = Some \<lparr>pathname = ''/x'', searchParams = []\<rparr>"
    by (simp add: get_request_def)
  have ok: "valid_status fetch_env
              (case Error ''Error'' ''boom'' of HttpException m s \<Rightarrow> sint s | _ \<Rightarrow> 500)"
    by (simp add: fetch_env_def)
  from exception_dispatch_responds [OF u ok, of "[?quiet, ?broken]" "[]", THEN conjunct1]
  obtain r w' where
    run: "ExceptionFilterExecutor_execute fetch_env (Error ''Error'' ''boom'')
            [?quiet, ?broken] ?host [] = (Inr r, w')"
    and kind: "(\<exists>f w0 w1. f \<in> set [?quiet, ?broken] \<and>
                  f (Error ''Error'' ''boom'') ?host w0 = (Inr (Some r), w1)) \<or>
               (status r = (case Error ''Error'' ''boom'' of
                              HttpException m s \<Rightarrow> sint s | _ \<Rightarrow> 500) \<and>
                response_message r =
                  Str (case Error ''Error'' ''boom'' of
                         HttpException m s \<Rightarrow> m
                       | _ \<Rightarrow> if has_message (Error ''Error'' ''boom'')
                              then msg_internal_error else msg_unknown_error))"
    by blast
  from kind have "status r = 500 \<and> response_message r = Str msg_internal_error"
    by (auto simp: silent_filter_def failing_filter_def)
  moreover have "valid_status fetch_env 500"
    by (simp add: fetch_env_def)
  ultimately show ?thesis using u run by blast
qed


section \<open>Properties of the interceptor chain\<close>

lemma handler_try_ignores_interceptors:
  "handler_try env app (route\<lparr>md_classInterceptors := ci, md_methodInterceptors := mi\<rparr>) req
     = handler_try env app route req"
  by (simp add: handler_try_def request_guards_def invoke_handler_def route_pipes_def
      cong: if_cong option.case_cong)

lemma handler_catch_ignores_interceptors:
  "handler_catch env app (route\<lparr>md_classInterceptors := ci, md_methodInterceptors := mi\<rparr>) req
     = handler_catch env app route req"
  by (rule ext) (simp add: handler_catch_def request_filters_def)

lemma route_handler_ignores_interceptors:
  "route_handler env app (route\<lparr>md_classInterceptors := ci, md_methodInterceptors := mi\<rparr>) req
     = route_handler env app route req"
  by (simp add: route_handler_def handler_try_ignores_interceptors
      handler_catch_ignores_interceptors)

text \<open>
  Claim C2.  For a matched request the handler invocation should be wrapped by the
  interceptor chain, composed right to left, so that with the interceptors A and B declared
  in that order the log reads A-before, B-before, handler, B-after, A-after.
  \<open>InterceptorExecutor.execute\<close> composes the chain so for a handler that returns a
  promise (for one that returns a plain value the chain runs as far as B-after and then
  fails with the \<open>ReferenceError\<close> of \<open>observableToPromise\<close>), but the handler that
  \<open>Application.findMatchingRoute\<close> builds never calls it and never reads the interceptors of
  the route: they have no effect on a request, and with A on the class and B on the method
  the log of a dispatched request reads handler alone.
\<close>

theorem dispatch_runs_no_interceptor:
  "route_handler env app (route\<lparr>md_classInterceptors := ci, md_methodInterceptors := mi\<rparr>) req
     = route_handler env app route req
   \<and> dispatch fetch_env
       (bare_app [(bare_route ''/x'' logging_handler)
          \<lparr>md_classInterceptors := [OfClass (Inr (logging_interceptor ''A''))],
           md_methodInterceptors := [OfClass (Inr (logging_interceptor ''B''))]\<rparr>])
       (get_request ''/x'') []
     = (Inr (Routed (Resp \<lparr>status = 200, body = Str ''done'',
                                content_type = Some ''text/plain''\<rparr>)
               [(''Access-Control-Allow-Origin'', ''*''),
                (''Access-Control-Allow-Methods'', ''GET, POST, PUT, DELETE, PATCH, OPTIONS''),
                (''Access-Control-Allow-Headers'', ''Content-Type, Authorization'')]),
        [''handler''])
   \<and> InterceptorExecutor_execute
       [Some (logging_interceptor ''A''), Some (logging_interceptor ''B'')]
       \<lparr>ctx_request = get_request ''/x'', ctx_class = ''Controller'', ctx_handler = ''method''\<rparr>
       (ReturnsPromise (logging_handler [RawRequest])) []
     = (Inr (Val (Str ''done'')),
        [''A-before'', ''B-before'', ''handler'', ''B-after'', ''A-after''])
   \<and> InterceptorExecutor_execute
       [Some (logging_interceptor ''A''), Some (logging_interceptor ''B'')]
       \<lparr>ctx_request = get_request ''/x'', ctx_class = ''Controller'', ctx_handler = ''method''\<rparr>
       (Returns (logging_handler [RawRequest])) []
     = (Inl uninitialized_subscription, [''A-before'', ''B-before'', ''handler'', ''B-after''])"
proof (intro conjI)
  show "route_handler env app
          (route\<lparr>md_classInterceptors := ci, md_methodInterceptors := mi\<rparr>) req
        = route_handler env app route req"
    by (rule route_handler_ignores_interceptors)
next
  show "dispatch fetch_env
       (bare_app [(bare_route ''/x'' logging_handler)
          \<lparr>md_classInterceptors := [OfClass (Inr (logging_interceptor ''A''))],
           md_methodInterceptors := [OfClass (Inr (logging_interceptor ''B''))]\<rparr>])
       (get_request ''/x'') []
     = (Inr (Routed (Resp \<lparr>status = 200, body = Str ''done'',
                                content_type = Some ''text/plain''\<rparr>)
               [(''Access-Control-Allow-Origin'', ''*''),
                (''Access-Control-Allow-Methods'', ''GET, POST, PUT, DELETE, PATCH, OPTIONS''),
                (''Access-Control-Allow-Headers'', ''Content-Type, Authorization'')]),
        [''handler''])"
    by (simp add: dispatch_def matchRoute_def segments_def startsWithColon_def
        route_handler_def io_catch_def handler_try_def request_guards_def resolveGuards_def
        getGlobalGuards_def bare_app_def bare_route_def io_bind_def io_of_def guard_stage_def
        invoke_handler_def resolveParams_def new_URL_def get_request_def Let_def
        route_pipes_def extractPathParams_def fill_undefined_def logging_handler_def
        io_return_def add_cors_headers_def corsHeaders_def swagger_paths_def
        assign_param_def)
next
  show "InterceptorExecutor_execute
       [Some (logging_interceptor ''A''), Some (logging_interceptor ''B'')]
       \<lparr>ctx_request = get_request ''/x'', ctx_class = ''Controller'', ctx_handler = ''method''\<rparr>
       (ReturnsPromise (logging_handler [RawRequest])) []
     = (Inr (Val (Str ''done'')),
        [''A-before'', ''B-before'', ''handler'', ''B-after'', ''A-after''])"
    by (simp add: InterceptorExecutor_execute_def logging_interceptor_def logging_handler_def
        wrap_interceptor_def observableToPromise_def io_bind_def io_of_def)
next
  show "InterceptorExecutor_execute
       [Some (logging_interceptor ''A''), Some (logging_interceptor ''B'')]
       \<lparr>ctx_request = get_request ''/x'', ctx_class = ''Controller'', ctx_handler = ''method''\<rparr>
       (Returns (logging_handler [RawRequest])) []
     = (Inl uninitialized_subscription, [''A-before'', ''B-before'', ''handler'', ''B-after''])"
    by (simp add: InterceptorExecutor_execute_def logging_interceptor_def logging_handler_def
        wrap_interceptor_def observableToPromise_def io_bind_def io_of_def)
qed


section \<open>Properties of the container\<close>

lemma resolve_dependency_cases:
  assumes "resolve_dependency r p s = (res, s')"
  shows "(is_primitive p \<and> res = Inr None \<and> s' = s) \<or>
         (\<exists>c x. p = PCtor c \<and> r (TCtor c) s = (x, s') \<and>
                 res = (case x of Inl e \<Rightarrow> Inl e | Inr i \<Rightarrow> Inr (Some i)))"
  using assms
  by (cases p) (auto simp: resolve_dependency_def split: sum.splits prod.splits)

lemma resolve_dependency_Inl:
  assumes "resolve_dependency r p s = (Inl e, s')"
  shows "\<exists>c. p = PCtor c \<and> r (TCtor c) s = (Inl e, s')"
  using assms
  by (cases p) (auto simp: resolve_dependency_def split: sum.splits prod.splits)

lemma resolve_dependency_primitive:
  "is_primitive p \<Longrightarrow> resolve_dependency r p s = (Inr None, s)"
  by (cases p) (simp_all add: resolve_dependency_def)

lemma resolve_all_allocated:
  assumes step: "\<And>p s r s'. f p s = (r, s') \<Longrightarrow> allocated s \<le> allocated s'"
    and run: "resolve_all f ps s = (r, s')"
  shows "allocated s \<le> allocated s'"
  using assms
proof (induction ps arbitrary: s r s')
  case Nil
  then show ?case by simp
next
  case (Cons p ps)
  obtain x s1 where fp: "f p s = (x, s1)"
    by (cases "f p s")
  have a1: "allocated s \<le> allocated s1"
    using Cons.prems(1)[of p s x s1] fp by simp
  show ?case
  proof (cases x)
    case (Inl e)
    with Cons.prems(2) fp have "s' = s1" by simp
    with a1 show ?thesis by simp
  next
    case (Inr d)
    obtain y s2 where rest: "resolve_all f ps s1 = (y, s2)"
      by (cases "resolve_all f ps s1")
    with Cons.prems(2) fp Inr have "s' = s2"
      by (auto split: sum.splits)
    with rest have rest': "resolve_all f ps s1 = (y, s')" by simp
    have "allocated s1 \<le> allocated s'"
      using Cons.IH[OF Cons.prems(1) rest'] by simp
    with a1 show ?thesis by simp
  qed
qed

lemma resolve_allocated_mono:
  "resolve depth classes tok s = (r, s') \<Longrightarrow> allocated s \<le> allocated s'"
proof (induction depth arbitrary: tok s r s')
  case 0
  then show ?case by simp
next
  case (Suc depth)
  have dep: "\<And>p s r s'. resolve_dependency (resolve depth classes) p s = (r, s')
               \<Longrightarrow> allocated s \<le> allocated s'"
  proof -
    fix p s r s'
    assume "resolve_dependency (resolve depth classes) p s = (r, s')"
    from resolve_dependency_cases[OF this] show "allocated s \<le> allocated s'"
      using Suc.IH by auto
  qed
  show ?case
  proof (cases "if singleton_scoped (token_scope classes tok)
                then singletons s (token_name classes tok) else None")
    case (Some cached)
    with Suc.prems show ?thesis by (simp add: Let_def)
  next
    case None
    show ?thesis
    proof (cases "case tok of TString t \<Rightarrow> services s t | TCtor c \<Rightarrow> Some c")
      case None' : None
      with None Suc.prems show ?thesis by (simp add: Let_def)
    next
      case (Some ServiceClass)
      obtain x s1 where
        all: "resolve_all (resolve_dependency (resolve depth classes))
                (paramtypes (classes ServiceClass)) s = (x, s1)"
        by (cases "resolve_all (resolve_dependency (resolve depth classes))
                (paramtypes (classes ServiceClass)) s")
      have a1: "allocated s \<le> allocated s1"
        using resolve_all_allocated[OF _ all] dep by blast
      from None Some Suc.prems all have "allocated s1 \<le> allocated s'"
        by (auto simp: Let_def split: sum.splits if_splits option.splits)
      with a1 show ?thesis by simp
    qed
  qed
qed

text \<open>What \<open>paramTypes.map\<close> throws is what one of the callbacks threw.\<close>

lemma resolve_all_Inl:
  assumes "resolve_all f ps s = (Inl e, s')"
  shows "\<exists>p s0 s1. p \<in> set ps \<and> f p s0 = (Inl e, s1)"
  using assms
proof (induction ps arbitrary: s s')
  case Nil
  then show ?case by simp
next
  case (Cons p ps)
  obtain x s1 where fp: "f p s = (x, s1)"
    by (cases "f p s")
  show ?case
  proof (cases x)
    case (Inl e')
    with Cons.prems fp have "f p s = (Inl e, s1)" by simp
    then show ?thesis by auto
  next
    case (Inr d)
    with Cons.prems fp have "\<exists>s2. resolve_all f ps s1 = (Inl e, s2)"
      by (auto split: sum.splits prod.splits)
    then obtain s2 where "resolve_all f ps s1 = (Inl e, s2)" by blast
    from Cons.IH[OF this] show ?thesis by auto
  qed
qed

text \<open>
  The errors of \<open>resolve\<close> for a constructor: the host's \<open>RangeError\<close>, or what the body
  of a constructor threw.
\<close>

lemma resolve_ctor_error:
  "resolve depth classes (TCtor c) s = (Inl e, s') \<Longrightarrow>
   e = stack_overflow \<or> (\<exists>c' args. cbody (classes c') args = Some e)"
proof (induction depth arbitrary: c s s')
  case 0
  then show ?case by simp
next
  case (Suc depth)
  show ?case
  proof (cases "if singleton_scoped (cscope (classes c))
                then singletons s (cname (classes c)) else None")
    case (Some cached)
    with Suc.prems show ?thesis
      by (simp add: Let_def token_scope_def token_name_def)
  next
    case None
    obtain x s1 where
      all: "resolve_all (resolve_dependency (resolve depth classes))
              (paramtypes (classes c)) s = (x, s1)"
      by (cases "resolve_all (resolve_dependency (resolve depth classes))
              (paramtypes (classes c)) s")
    show ?thesis
    proof (cases x)
      case (Inl e')
      with None all Suc.prems have e: "e' = e"
        by (simp add: Let_def token_scope_def token_name_def)
      from resolve_all_Inl[of "resolve_dependency (resolve depth classes)"] all Inl e
      obtain p s0 s2 where "resolve_dependency (resolve depth classes) p s0 = (Inl e, s2)"
        by blast
      from resolve_dependency_Inl[OF this] obtain c' where
        "resolve depth classes (TCtor c') s0 = (Inl e, s2)" by blast
      from Suc.IH[OF this] show ?thesis .
    next
      case (Inr dependencies)
      with None all Suc.prems have "cbody (classes c) dependencies = Some e"
        by (auto simp: Let_def token_scope_def token_name_def split: option.splits)
      then show ?thesis by blast
    qed
  qed
qed

lemma resolve_error_kinds:
  assumes "resolve depth classes tok s = (Inl e, s')"
  shows "(\<exists>t. tok = TString t \<and> services s t = None \<and> singletons s t = None \<and>
              e = service_not_found t \<and> s' = s)
         \<or> e = stack_overflow
         \<or> (\<exists>c args. cbody (classes c) args = Some e)"
proof (cases tok)
  case (TCtor c)
  with assms resolve_ctor_error show ?thesis by blast
next
  case (TString t)
  show ?thesis
  proof (cases depth)
    case 0
    with assms show ?thesis by simp
  next
    case (Suc d)
    show ?thesis
    proof (cases "singletons s t")
      case (Some cached)
      with assms TString Suc show ?thesis
        by (simp add: Let_def token_scope_def token_name_def)
    next
      case None
      show ?thesis
      proof (cases "services s t")
        case None' : None
        with None assms TString Suc show ?thesis
          by (simp add: Let_def token_scope_def token_name_def)
      next
        case (Some ServiceClass)
        obtain x s1 where
          all: "resolve_all (resolve_dependency (resolve d classes))
                  (paramtypes (classes ServiceClass)) s = (x, s1)"
          by (cases "resolve_all (resolve_dependency (resolve d classes))
                  (paramtypes (classes ServiceClass)) s")
        show ?thesis
        proof (cases x)
          case (Inl e')
          with None Some all assms TString Suc have e: "e' = e"
            by (simp add: Let_def token_scope_def token_name_def)
          from resolve_all_Inl[of "resolve_dependency (resolve d classes)"] all Inl e
          obtain p s0 s2 where "resolve_dependency (resolve d classes) p s0 = (Inl e, s2)"
            by blast
          from resolve_dependency_Inl[OF this] obtain c' where
            "resolve d classes (TCtor c') s0 = (Inl e, s2)" by blast
          from resolve_ctor_error[OF this] show ?thesis by blast
        next
          case (Inr dependencies)
          with None Some all assms TString Suc
          have "cbody (classes ServiceClass) dependencies = Some e"
            by (auto simp: Let_def token_scope_def token_name_def split: option.splits)
          then show ?thesis by blast
        qed
      qed
    qed
  qed
qed

lemma resolve_unregistered_string:
  assumes "services s t = None" and "singletons s t = None"
  shows "resolve (Suc depth) classes (TString t) s = (Inl (service_not_found t), s)"
  using assms by (simp add: token_name_def token_scope_def)

lemma resolve_all_succeeds:
  assumes "\<And>p s. p \<in> set ps \<Longrightarrow> \<exists>d s'. f p s = (Inr d, s')"
  shows "\<exists>ds s'. resolve_all f ps s = (Inr ds, s')"
  using assms
proof (induction ps arbitrary: s)
  case Nil
  show ?case by simp
next
  case (Cons p ps)
  from Cons.prems[of p s] obtain d s1 where fp: "f p s = (Inr d, s1)" by auto
  from Cons.IH[of s1] Cons.prems obtain ds s2 where
    "resolve_all f ps s1 = (Inr ds, s2)" by auto
  with fp show ?case by simp
qed

lemma resolve_acyclic_succeeds:
  assumes quiet: "\<forall>c args. cbody (classes c) args = None"
  shows "deps_within d classes c \<Longrightarrow> \<exists>i s'. resolve d classes (TCtor c) s = (Inr i, s')"
proof (induction d arbitrary: c s)
  case 0
  then show ?case by simp
next
  case (Suc d)
  have dep: "\<And>p s. p \<in> set (paramtypes (classes c)) \<Longrightarrow>
               \<exists>x s'. resolve_dependency (resolve d classes) p s = (Inr x, s')"
  proof -
    fix p s
    assume mem: "p \<in> set (paramtypes (classes c))"
    show "\<exists>x s'. resolve_dependency (resolve d classes) p s = (Inr x, s')"
    proof (cases p)
      case (PCtor c')
      with mem Suc.prems have "deps_within d classes c'"
        by (auto simp: list_all_iff)
      from Suc.IH[OF this, of s] PCtor show ?thesis
        by (auto simp: resolve_dependency_def)
    qed (simp_all add: resolve_dependency_def)
  qed
  from resolve_all_succeeds[of "paramtypes (classes c)"
      "resolve_dependency (resolve d classes)" s, OF dep]
  obtain ds s1 where "resolve_all (resolve_dependency (resolve d classes))
      (paramtypes (classes c)) s = (Inr ds, s1)" by blast
  then show ?case
    using quiet by (auto simp: Let_def split: option.splits)
qed

lemma resolve_singleton_cached:
  assumes "resolve depth classes tok s = (Inr i, s')"
    and "singleton_scoped (token_scope classes tok)"
  shows "singletons s' (token_name classes tok) = Some i"
proof -
  from assms obtain f where depth: "depth = Suc f" by (cases depth) auto
  show ?thesis
    using assms depth
    by (auto simp: Let_def split: option.splits sum.splits prod.splits if_splits)
qed

lemma resolve_again_singleton:
  assumes "resolve depth classes tok s = (Inr i, s')"
    and "singleton_scoped (token_scope classes tok)"
  shows "resolve (Suc depth') classes tok s' = (Inr i, s')"
  using resolve_singleton_cached[OF assms] assms(2) by (simp add: Let_def)

lemma resolve_fresh_id:
  assumes "resolve depth classes (TCtor c) s = (Inr i, s')"
    and "\<not> singleton_scoped (cscope (classes c))"
  shows "allocated s \<le> inst_id i \<and> inst_id i < allocated s' \<and> inst_class i = c"
proof -
  from assms obtain f where depth: "depth = Suc f" by (cases depth) auto
  have dep: "\<And>p s r s'. resolve_dependency (resolve f classes) p s = (r, s')
               \<Longrightarrow> allocated s \<le> allocated s'"
  proof -
    fix p s r s'
    assume "resolve_dependency (resolve f classes) p s = (r, s')"
    from resolve_dependency_cases[OF this] show "allocated s \<le> allocated s'"
      using resolve_allocated_mono by auto
  qed
  from assms depth obtain ds s1 where
    all: "resolve_all (resolve_dependency (resolve f classes)) (paramtypes (classes c)) s
            = (Inr ds, s1)"
    and i: "i = Instance (allocated s1) c ds"
    and s': "s' = s1\<lparr>allocated := Suc (allocated s1)\<rparr>"
    by (auto simp: Let_def token_scope_def token_name_def
        split: option.splits sum.splits prod.splits)
  from resolve_all_allocated[OF dep all] i s' show ?thesis by simp
qed

lemma resolve_twice_distinct:
  assumes "resolve depth classes (TCtor c) s = (Inr i, s')"
    and "resolve depth' classes (TCtor c) s' = (Inr j, s'')"
    and "\<not> singleton_scoped (cscope (classes c))"
  shows "inst_id i < inst_id j"
  using resolve_fresh_id[OF assms(1) assms(3)] resolve_fresh_id[OF assms(2) assms(3)]
  by simp

lemma resolve_all_args:
  assumes "resolve_all (resolve_dependency r) ps s = (Inr ds, s')"
  shows "length ds = length ps \<and> (\<forall>k < length ps. is_primitive (ps ! k) \<longrightarrow> ds ! k = None)"
  using assms
proof (induction ps arbitrary: s ds)
  case Nil
  then show ?case by simp
next
  case (Cons p ps)
  from Cons.prems obtain d s1 rest where
    hd: "resolve_dependency r p s = (Inr d, s1)"
    and tl: "resolve_all (resolve_dependency r) ps s1 = (Inr rest, s')"
    and ds: "ds = d # rest"
    by (auto split: sum.splits prod.splits)
  from Cons.IH[OF tl] have len: "length rest = length ps"
    and prim: "\<forall>k < length ps. is_primitive (ps ! k) \<longrightarrow> rest ! k = None"
    by simp_all
  have first: "is_primitive p \<longrightarrow> d = None"
    using hd resolve_dependency_primitive[of p r s] by auto
  show ?case
  proof (intro conjI allI impI)
    show "length ds = length (p # ps)" using ds len by simp
  next
    fix k
    assume k: "k < length (p # ps)" and pk: "is_primitive ((p # ps) ! k)"
    show "ds ! k = None"
    proof (cases k)
      case 0
      with pk first ds show ?thesis by simp
    next
      case (Suc k')
      with k pk prim ds show ?thesis by simp
    qed
  qed
qed

lemma resolve_fresh_args:
  assumes run: "resolve depth classes (TCtor c) s = (Inr i, s')"
    and fresh: "singleton_scoped (cscope (classes c)) \<longrightarrow> singletons s (cname (classes c)) = None"
  shows "inst_class i = c \<and> length (inst_args i) = length (paramtypes (classes c)) \<and>
         (\<forall>k < length (paramtypes (classes c)).
            is_primitive (paramtypes (classes c) ! k) \<longrightarrow> inst_args i ! k = None)"
proof -
  from run obtain f where depth: "depth = Suc f" by (cases depth) auto
  from run fresh depth obtain ds s1 where
    all: "resolve_all (resolve_dependency (resolve f classes)) (paramtypes (classes c)) s
            = (Inr ds, s1)"
    and i: "i = Instance (allocated s1) c ds"
    by (auto simp: Let_def token_scope_def token_name_def
        split: option.splits sum.splits prod.splits if_splits)
  from resolve_all_args[OF all] i show ?thesis by simp
qed

lemma resolve_registered_succeeds:
  assumes "services s t = Some c" and "deps_within d classes c"
    and quiet: "\<forall>c args. cbody (classes c) args = None"
  shows "\<exists>i s'. resolve d classes (TString t) s = (Inr i, s')"
proof -
  from assms(2) obtain d' where d: "d = Suc d'" by (cases d) auto
  show ?thesis
  proof (cases "singletons s t")
    case (Some cached)
    then show ?thesis using d by (simp add: token_name_def token_scope_def)
  next
    case None
    have dep: "\<And>p s. p \<in> set (paramtypes (classes c)) \<Longrightarrow>
                 \<exists>x s'. resolve_dependency (resolve d' classes) p s = (Inr x, s')"
    proof -
      fix p s
      assume mem: "p \<in> set (paramtypes (classes c))"
      show "\<exists>x s'. resolve_dependency (resolve d' classes) p s = (Inr x, s')"
      proof (cases p)
        case (PCtor c')
        with mem assms(2) d have "deps_within d' classes c'"
          by (auto simp: list_all_iff)
        from resolve_acyclic_succeeds[OF quiet this, of s] PCtor show ?thesis
          by (auto simp: resolve_dependency_def)
      qed (simp_all add: resolve_dependency_def)
    qed
    from resolve_all_succeeds[of "paramtypes (classes c)"
        "resolve_dependency (resolve d' classes)" s, OF dep]
    obtain ds s1 where "resolve_all (resolve_dependency (resolve d' classes))
        (paramtypes (classes c)) s = (Inr ds, s1)" by blast
    with None assms(1) d quiet show ?thesis
      by (auto simp: Let_def token_name_def token_scope_def)
  qed
qed

text \<open>
  Round trip: a provider registered under its name resolves by that name, when its
  constructor dependencies form no cycle and no constructor throws; after \<open>clear\<close> the
  name is unknown again.
\<close>

lemma register_then_resolve:
  assumes "deps_within d classes c" and "\<forall>c args. cbody (classes c) args = None"
  shows "\<exists>i s'. resolve d classes (TString t) (register t c s) = (Inr i, s')"
  using resolve_registered_succeeds[of "register t c s" t c d classes] assms
  by (simp add: register_def)

lemma clear_then_resolve:
  "resolve (Suc depth) classes (TString t) (clear s)
     = (Inl (service_not_found t), clear s)"
  by (simp add: clear_def token_name_def token_scope_def)

lemma resolve_twice:
  assumes "deps_within d classes c" and quiet: "\<forall>c args. cbody (classes c) args = None"
  shows "\<exists>i s' j s''.
           resolve d classes (TCtor c) s = (Inr i, s') \<and>
           resolve d classes (TCtor c) s' = (Inr j, s'') \<and>
           (if singleton_scoped (cscope (classes c)) then j = i \<and> s'' = s'
            else inst_id i < inst_id j)"
proof -
  from resolve_acyclic_succeeds[OF quiet assms(1)] obtain i s' where
    first: "resolve d classes (TCtor c) s = (Inr i, s')" by blast
  from resolve_acyclic_succeeds[OF quiet assms(1)] obtain j s'' where
    second: "resolve d classes (TCtor c) s' = (Inr j, s'')" by blast
  from assms obtain d' where d: "d = Suc d'" by (cases d) auto
  show ?thesis
  proof (cases "singleton_scoped (cscope (classes c))")
    case True
    then have "singleton_scoped (token_scope classes (TCtor c))"
      by (simp add: token_scope_def)
    from resolve_again_singleton[OF first this, of d'] second d
    have "j = i \<and> s'' = s'" by simp
    with first second True show ?thesis by auto
  next
    case False
    from resolve_twice_distinct[OF first second False] first second False
    show ?thesis by auto
  qed
qed

text \<open>What the body of a constructor throws comes out of \<open>resolve\<close>.\<close>

lemma resolve_constructor_throws:
  assumes "paramtypes (classes c) = []" and "cbody (classes c) [] = Some e"
    and "singleton_scoped (cscope (classes c)) \<longrightarrow> singletons s (cname (classes c)) = None"
  shows "resolve (Suc depth) classes (TCtor c) s = (Inl e, s)"
  using assms by (auto simp: Let_def token_name_def token_scope_def)

text \<open>
  A constructor whose first parameter is the constructor itself: whatever room the stack
  has, \<open>resolve\<close> ends with the host's \<open>RangeError\<close>.
\<close>

lemma resolve_self_cycle:
  assumes "paramtypes (classes c) = PCtor c # rest"
    and "singleton_scoped (cscope (classes c)) \<longrightarrow> singletons s (cname (classes c)) = None"
  shows "resolve depth classes (TCtor c) s = (Inl stack_overflow, s)"
  using assms
proof (induction depth)
  case 0
  show ?case by simp
next
  case (Suc depth)
  then show ?case
    by (auto simp: Let_def token_name_def token_scope_def resolve_dependency_def)
qed

text \<open>
  Claim C7, as stated: singleton is the default scope, so a constructor that carries no
  scope marker is cached and returned again.  A constructor without \<open>scope\<close> metadata (a
  class that was not decorated with \<open>Injectable\<close>) reads the scope \<open>undefined\<close>, which is not
  \<open>"singleton"\<close>: nothing is cached and the second \<open>resolve\<close> builds a second object.
\<close>

theorem undecorated_constructor_counterexample:
  "resolve 1
     (class_table [\<lparr>cname = ''Plain'', cscope = None, paramtypes = [], cbody = returns\<rparr>])
     (TCtor 0) empty_container
   = (Inr (Instance 0 0 []), empty_container\<lparr>allocated := 1\<rparr>)
   \<and> resolve 1
       (class_table [\<lparr>cname = ''Plain'', cscope = None, paramtypes = [], cbody = returns\<rparr>])
       (TCtor 0) (empty_container\<lparr>allocated := 1\<rparr>)
     = (Inr (Instance 1 0 []), empty_container\<lparr>allocated := 2\<rparr>)
   \<and> Instance 0 0 [] \<noteq> Instance 1 0 []"
  by (simp add: empty_container_def token_name_def token_scope_def class_table_def Let_def
      returns_def)

text \<open>
  Claim C7, amended.  Two \<open>resolve\<close> calls for the same singleton-scoped token, that is
  a string token or a constructor whose \<open>scope\<close> metadata is \<open>"singleton"\<close> (what
  \<open>Injectable\<close> writes when no scope is given), return the identical cached instance.  Two
  \<open>resolve\<close> calls for a constructor whose \<open>scope\<close> metadata is \<open>"transient"\<close>, or that has
  no \<open>scope\<close> metadata at all, return distinct instances.  The calls return when the
  constructor's dependencies end within the depth the stack has room for and no
  constructor throws.
\<close>

theorem singleton_cached_others_fresh:
  "(resolve depth classes tok s = (Inr i, s') \<and> singleton_scoped (token_scope classes tok)
      \<longrightarrow> resolve (Suc depth') classes tok s' = (Inr i, s'))
   \<and> (resolve depth classes (TCtor c) s = (Inr i, s') \<and>
      resolve depth' classes (TCtor c) s' = (Inr j, s'') \<and>
      \<not> singleton_scoped (cscope (classes c))
      \<longrightarrow> i \<noteq> j \<and> inst_id i < inst_id j)
   \<and> (deps_within d classes c \<and> (\<forall>c' args. cbody (classes c') args = None)
      \<longrightarrow> (\<exists>i s' j s''.
             resolve d classes (TCtor c) s = (Inr i, s') \<and>
             resolve d classes (TCtor c) s' = (Inr j, s'') \<and>
             (if singleton_scoped (cscope (classes c)) then j = i \<and> s'' = s'
              else i \<noteq> j)))
   \<and> singleton_scoped (token_scope classes (TString t))
   \<and> singleton_scoped (cscope (Injectable None target))
   \<and> \<not> singleton_scoped (Some Transient) \<and> \<not> singleton_scoped None"
proof (intro conjI impI)
  assume "resolve depth classes tok s = (Inr i, s') \<and>
          singleton_scoped (token_scope classes tok)"
  then show "resolve (Suc depth') classes tok s' = (Inr i, s')"
    using resolve_again_singleton by blast
next
  assume h: "resolve depth classes (TCtor c) s = (Inr i, s') \<and>
      resolve depth' classes (TCtor c) s' = (Inr j, s'') \<and>
      \<not> singleton_scoped (cscope (classes c))"
  then show "inst_id i < inst_id j"
    using resolve_twice_distinct by blast
  then show "i \<noteq> j" by auto
next
  assume h: "deps_within d classes c \<and> (\<forall>c' args. cbody (classes c') args = None)"
  from resolve_twice[OF h [THEN conjunct1] h [THEN conjunct2], of s]
  show "\<exists>i s' j s''.
             resolve d classes (TCtor c) s = (Inr i, s') \<and>
             resolve d classes (TCtor c) s' = (Inr j, s'') \<and>
             (if singleton_scoped (cscope (classes c)) then j = i \<and> s'' = s'
              else i \<noteq> j)"
    by (metis less_irrefl)
qed (simp_all add: token_scope_def Injectable_def)

theorem singleton_cached_others_fresh_witness:
  "resolve 1
     (class_table
        [\<lparr>cname = ''Service'', cscope = Some Singleton, paramtypes = [], cbody = returns\<rparr>,
         \<lparr>cname = ''Job'', cscope = Some Transient, paramtypes = [PCtor 0], cbody = returns\<rparr>])
     (TCtor 0) empty_container
   = (Inr (Instance 0 0 []),
      empty_container\<lparr>allocated := 1, singletons := [''Service'' \<mapsto> Instance 0 0 []]\<rparr>)
   \<and> resolve 1
     (class_table
        [\<lparr>cname = ''Service'', cscope = Some Singleton, paramtypes = [], cbody = returns\<rparr>,
         \<lparr>cname = ''Job'', cscope = Some Transient, paramtypes = [PCtor 0], cbody = returns\<rparr>])
     (TCtor 0)
     (empty_container\<lparr>allocated := 1, singletons := [''Service'' \<mapsto> Instance 0 0 []]\<rparr>)
   = (Inr (Instance 0 0 []),
      empty_container\<lparr>allocated := 1, singletons := [''Service'' \<mapsto> Instance 0 0 []]\<rparr>)
   \<and> resolve 2
     (class_table
        [\<lparr>cname = ''Service'', cscope = Some Singleton, paramtypes = [], cbody = returns\<rparr>,
         \<lparr>cname = ''Job'', cscope = Some Transient, paramtypes = [PCtor 0], cbody = returns\<rparr>])
     (TCtor 1)
     (empty_container\<lparr>allocated := 1, singletons := [''Service'' \<mapsto> Instance 0 0 []]\<rparr>)
   = (Inr (Instance 1 1 [Some (Instance 0 0 [])]),
      empty_container\<lparr>allocated := 2, singletons := [''Service'' \<mapsto> Instance 0 0 []]\<rparr>)
   \<and> resolve 2
     (class_table
        [\<lparr>cname = ''Service'', cscope = Some Singleton, paramtypes = [], cbody = returns\<rparr>,
         \<lparr>cname = ''Job'', cscope = Some Transient, paramtypes = [PCtor 0], cbody = returns\<rparr>])
     (TCtor 1)
     (empty_container\<lparr>allocated := 2, singletons := [''Service'' \<mapsto> Instance 0 0 []]\<rparr>)
   = (Inr (Instance 2 1 [Some (Instance 0 0 [])]),
      empty_container\<lparr>allocated := 3, singletons := [''Service'' \<mapsto> Instance 0 0 []]\<rparr>)
   \<and> Instance 1 1 [Some (Instance 0 0 [])] \<noteq> Instance 2 1 [Some (Instance 0 0 [])]
   \<and> deps_within 2
       (class_table
          [\<lparr>cname = ''Service'', cscope = Some Singleton, paramtypes = [], cbody = returns\<rparr>,
           \<lparr>cname = ''Job'', cscope = Some Transient, paramtypes = [PCtor 0],
            cbody = returns\<rparr>]) 1"
proof -
  let ?cl = "class_table
        [\<lparr>cname = ''Service'', cscope = Some Singleton, paramtypes = [], cbody = returns\<rparr>,
         \<lparr>cname = ''Job'', cscope = Some Transient, paramtypes = [PCtor 0], cbody = returns\<rparr>]"
  let ?s1 = "empty_container\<lparr>allocated := 1, singletons := [''Service'' \<mapsto> Instance 0 0 []]\<rparr>"
  let ?s2 = "empty_container\<lparr>allocated := 2, singletons := [''Service'' \<mapsto> Instance 0 0 []]\<rparr>"
  let ?s3 = "empty_container\<lparr>allocated := 3, singletons := [''Service'' \<mapsto> Instance 0 0 []]\<rparr>"
  let ?job1 = "Instance 1 1 [Some (Instance 0 0 [])]"
  let ?job2 = "Instance 2 1 [Some (Instance 0 0 [])]"
  have first: "resolve 1 ?cl (TCtor 0) empty_container = (Inr (Instance 0 0 []), ?s1)"
    by (simp add: empty_container_def token_name_def token_scope_def class_table_def Let_def
        returns_def)
  have single: "singleton_scoped (token_scope ?cl (TCtor 0))"
    by (simp add: token_scope_def class_table_def)
  have again: "resolve 1 ?cl (TCtor 0) ?s1 = (Inr (Instance 0 0 []), ?s1)"
    using singleton_cached_others_fresh
      [of 1 ?cl "TCtor 0" empty_container "Instance 0 0 []" ?s1 0, THEN conjunct1]
      first single by simp
  have job1: "resolve 2 ?cl (TCtor 1) ?s1 = (Inr ?job1, ?s2)"
    by (simp add: empty_container_def token_name_def token_scope_def class_table_def numeral_2_eq_2
        resolve_dependency_def Let_def returns_def)
  have job2: "resolve 2 ?cl (TCtor 1) ?s2 = (Inr ?job2, ?s3)"
    by (simp add: empty_container_def token_name_def token_scope_def class_table_def numeral_2_eq_2
        resolve_dependency_def Let_def returns_def)
  have transient: "\<not> singleton_scoped (cscope (?cl 1))"
    by (simp add: class_table_def)
  have distinct: "?job1 \<noteq> ?job2"
    using singleton_cached_others_fresh
      [of 2 ?cl "TCtor 1" ?s1 ?job1 ?s2 2 1 ?job2 ?s3, THEN conjunct2, THEN conjunct1]
      job1 job2 transient by blast
  have acyclic: "deps_within 2 ?cl 1"
    by (simp add: numeral_2_eq_2 class_table_def)
  from first again job1 job2 distinct acyclic show ?thesis by blast
qed

text \<open>
  Claim C9, as stated: \<open>resolve\<close> throws \<open>service not found\<close> whenever it is given a
  string token with no registration.  The cache of singletons is read before the
  registrations and is keyed by name: once the singleton-scoped constructor \<open>Foo\<close> has been
  resolved, \<open>resolve("Foo")\<close> returns that instance although nothing is registered.
\<close>

theorem cached_unregistered_string_counterexample:
  "resolve 1
     (class_table [\<lparr>cname = ''Foo'', cscope = Some Singleton, paramtypes = [], cbody = returns\<rparr>])
     (TCtor 0) empty_container
   = (Inr (Instance 0 0 []),
      empty_container\<lparr>allocated := 1, singletons := [''Foo'' \<mapsto> Instance 0 0 []]\<rparr>)
   \<and> services
       (empty_container\<lparr>allocated := 1, singletons := [''Foo'' \<mapsto> Instance 0 0 []]\<rparr>) ''Foo''
     = None
   \<and> resolve 1
       (class_table [\<lparr>cname = ''Foo'', cscope = Some Singleton, paramtypes = [], cbody = returns\<rparr>])
       (TString ''Foo'')
       (empty_container\<lparr>allocated := 1, singletons := [''Foo'' \<mapsto> Instance 0 0 []]\<rparr>)
     = (Inr (Instance 0 0 []),
        empty_container\<lparr>allocated := 1, singletons := [''Foo'' \<mapsto> Instance 0 0 []]\<rparr>)"
  by (simp add: empty_container_def token_name_def token_scope_def class_table_def Let_def
      returns_def)

text \<open>
  Claim C9, amended.  \<open>resolve\<close> throws \<open>service not found\<close> when it is given a string
  token for which there is neither a cached singleton nor a registration, and it throws
  nothing else of its own: any other error that comes out of \<open>resolve\<close> is the host's
  \<open>RangeError\<close> for a recursion deeper than its stack, or what the body of a constructor
  threw.  So resolving a constructor, registered or not, succeeds by instantiating through
  the same recursion when the constructors it depends on end within the depth the stack has
  room for (they form no cycle) and no constructor throws; a parameter of type \<open>String\<close>,
  \<open>Number\<close> or \<open>Boolean\<close> receives \<open>undefined\<close>.  What the body of a constructor throws
  comes out of \<open>resolve\<close>, and a constructor that depends on itself ends with the
  \<open>RangeError\<close> whatever the depth.
\<close>

theorem resolve_not_found_only_for_unknown_string:
  "(services s t = None \<and> singletons s t = None
      \<longrightarrow> resolve (Suc depth) classes (TString t) s = (Inl (service_not_found t), s))
   \<and> (resolve depth classes tok s = (Inl e, s')
      \<longrightarrow> (\<exists>t. tok = TString t \<and> services s t = None \<and> singletons s t = None \<and>
                e = service_not_found t \<and> s' = s)
          \<or> e = stack_overflow
          \<or> (\<exists>c' args. cbody (classes c') args = Some e))
   \<and> (deps_within d classes c \<and> (\<forall>c' args. cbody (classes c') args = None)
      \<longrightarrow> (\<exists>i s'. resolve d classes (TCtor c) s = (Inr i, s')))
   \<and> (resolve depth classes (TCtor c) s = (Inr i, s') \<and>
      (if singleton_scoped (cscope (classes c)) then singletons s (cname (classes c)) = None
       else True)
      \<longrightarrow> inst_class i = c \<and> length (inst_args i) = length (paramtypes (classes c)) \<and>
          (\<forall>k < length (paramtypes (classes c)).
             is_primitive (paramtypes (classes c) ! k) \<longrightarrow> inst_args i ! k = None))
   \<and> (paramtypes (classes c) = [] \<and> cbody (classes c) [] = Some e \<and>
      (if singleton_scoped (cscope (classes c)) then singletons s (cname (classes c)) = None
       else True)
      \<longrightarrow> resolve (Suc depth) classes (TCtor c) s = (Inl e, s))
   \<and> (paramtypes (classes c) = PCtor c # rest \<and>
      (if singleton_scoped (cscope (classes c)) then singletons s (cname (classes c)) = None
       else True)
      \<longrightarrow> resolve depth classes (TCtor c) s = (Inl stack_overflow, s))"
proof (intro conjI impI)
  assume "services s t = None \<and> singletons s t = None"
  then show "resolve (Suc depth) classes (TString t) s = (Inl (service_not_found t), s)"
    using resolve_unregistered_string by blast
next
  assume "resolve depth classes tok s = (Inl e, s')"
  then show "(\<exists>t. tok = TString t \<and> services s t = None \<and> singletons s t = None \<and>
                e = service_not_found t \<and> s' = s)
          \<or> e = stack_overflow
          \<or> (\<exists>c' args. cbody (classes c') args = Some e)"
    by (rule resolve_error_kinds)
next
  assume h: "deps_within d classes c \<and> (\<forall>c' args. cbody (classes c') args = None)"
  show "\<exists>i s'. resolve d classes (TCtor c) s = (Inr i, s')"
    by (rule resolve_acyclic_succeeds [OF h [THEN conjunct2] h [THEN conjunct1]])
next
  assume h: "resolve depth classes (TCtor c) s = (Inr i, s') \<and>
      (if singleton_scoped (cscope (classes c)) then singletons s (cname (classes c)) = None
       else True)"
  then have run: "resolve depth classes (TCtor c) s = (Inr i, s')"
    and fresh: "singleton_scoped (cscope (classes c)) \<longrightarrow> singletons s (cname (classes c)) = None"
    by (auto split: if_splits)
  from resolve_fresh_args[OF run fresh]
  show "inst_class i = c"
    and "length (inst_args i) = length (paramtypes (classes c))"
    and "\<forall>k < length (paramtypes (classes c)).
             is_primitive (paramtypes (classes c) ! k) \<longrightarrow> inst_args i ! k = None"
    by simp_all
next
  assume h: "paramtypes (classes c) = [] \<and> cbody (classes c) [] = Some e \<and>
      (if singleton_scoped (cscope (classes c)) then singletons s (cname (classes c)) = None
       else True)"
  then have fresh: "singleton_scoped (cscope (classes c)) \<longrightarrow> singletons s (cname (classes c)) = None"
    by (auto split: if_splits)
  show "resolve (Suc depth) classes (TCtor c) s = (Inl e, s)"
    by (rule resolve_constructor_throws [where classes = classes and c = c,
          OF h [THEN conjunct1] h [THEN conjunct2, THEN conjunct1] fresh])
next
  assume h: "paramtypes (classes c) = PCtor c # rest \<and>
      (if singleton_scoped (cscope (classes c)) then singletons s (cname (classes c)) = None
       else True)"
  then have fresh: "singleton_scoped (cscope (classes c)) \<longrightarrow> singletons s (cname (classes c)) = None"
    by (auto split: if_splits)
  show "resolve depth classes (TCtor c) s = (Inl stack_overflow, s)"
    by (rule resolve_self_cycle [where classes = classes and c = c,
          OF h [THEN conjunct1] fresh])
qed

theorem resolve_not_found_only_for_unknown_string_witness:
  "resolve 1
     (class_table [\<lparr>cname = ''Repo'', cscope = None, paramtypes = [PString], cbody = returns\<rparr>,
                   \<lparr>cname = ''Ctl'', cscope = None, paramtypes = [PCtor 0, PNumber],
                    cbody = returns\<rparr>])
     (TString ''Missing'') empty_container
   = (Inl (service_not_found ''Missing''), empty_container)
   \<and> deps_within 2
       (class_table [\<lparr>cname = ''Repo'', cscope = None, paramtypes = [PString], cbody = returns\<rparr>,
                     \<lparr>cname = ''Ctl'', cscope = None, paramtypes = [PCtor 0, PNumber],
                      cbody = returns\<rparr>]) 1
   \<and> (\<forall>c args.
         cbody (class_table
                  [\<lparr>cname = ''Repo'', cscope = None, paramtypes = [PString], cbody = returns\<rparr>,
                   \<lparr>cname = ''Ctl'', cscope = None, paramtypes = [PCtor 0, PNumber],
                    cbody = returns\<rparr>] c) args = None)
   \<and> (\<exists>i s'. resolve 2
        (class_table [\<lparr>cname = ''Repo'', cscope = None, paramtypes = [PString], cbody = returns\<rparr>,
                      \<lparr>cname = ''Ctl'', cscope = None, paramtypes = [PCtor 0, PNumber],
                       cbody = returns\<rparr>])
        (TCtor 1) empty_container = (Inr i, s'))
   \<and> resolve 2
        (class_table [\<lparr>cname = ''Repo'', cscope = None, paramtypes = [PString], cbody = returns\<rparr>,
                      \<lparr>cname = ''Ctl'', cscope = None, paramtypes = [PCtor 0, PNumber],
                       cbody = returns\<rparr>])
        (TCtor 1) empty_container
     = (Inr (Instance 1 1 [Some (Instance 0 0 [None]), None]),
        empty_container\<lparr>allocated := 2\<rparr>)
   \<and> inst_args (Instance 1 1 [Some (Instance 0 0 [None]), None]) ! 1 = None
   \<and> resolve 5
        (class_table [\<lparr>cname = ''Broken'', cscope = None, paramtypes = [],
                       cbody = throws (Error ''Error'' ''no database'')\<rparr>,
                      \<lparr>cname = ''Loop'', cscope = None, paramtypes = [PCtor 1],
                       cbody = returns\<rparr>])
        (TCtor 0) empty_container
     = (Inl (Error ''Error'' ''no database''), empty_container)
   \<and> resolve 5
        (class_table [\<lparr>cname = ''Broken'', cscope = None, paramtypes = [],
                       cbody = throws (Error ''Error'' ''no database'')\<rparr>,
                      \<lparr>cname = ''Loop'', cscope = None, paramtypes = [PCtor 1],
                       cbody = returns\<rparr>])
        (TCtor 1) empty_container
     = (Inl stack_overflow, empty_container)"
proof -
  let ?cl = "class_table
      [\<lparr>cname = ''Repo'', cscope = None, paramtypes = [PString], cbody = returns\<rparr>,
       \<lparr>cname = ''Ctl'', cscope = None, paramtypes = [PCtor 0, PNumber], cbody = returns\<rparr>]"
  let ?bad = "class_table
      [\<lparr>cname = ''Broken'', cscope = None, paramtypes = [],
        cbody = throws (Error ''Error'' ''no database'')\<rparr>,
       \<lparr>cname = ''Loop'', cscope = None, paramtypes = [PCtor 1], cbody = returns\<rparr>]"
  let ?ctl = "Instance 1 1 [Some (Instance 0 0 [None]), None]"
  note claim = resolve_not_found_only_for_unknown_string
  have unknown: "services empty_container ''Missing'' = None \<and>
                 singletons empty_container ''Missing'' = None"
    by (simp add: empty_container_def)
  have missing: "resolve 1 ?cl (TString ''Missing'') empty_container
                   = (Inl (service_not_found ''Missing''), empty_container)"
    using claim [of empty_container "''Missing''" 0 ?cl, THEN conjunct1] unknown by simp
  have acyclic: "deps_within 2 ?cl 1"
    by (simp add: numeral_2_eq_2 class_table_def)
  have quiet: "\<forall>c args. cbody (?cl c) args = None"
    by (auto simp: class_table_def returns_def nth_Cons split: nat.splits)
  have succeeds: "\<exists>i s'. resolve 2 ?cl (TCtor 1) empty_container = (Inr i, s')"
    using claim [where d = 2 and classes = ?cl and c = 1 and s = empty_container,
               THEN conjunct2, THEN conjunct2, THEN conjunct1] acyclic quiet
    by blast
  have run: "resolve 2 ?cl (TCtor 1) empty_container
               = (Inr ?ctl, empty_container\<lparr>allocated := 2\<rparr>)"
    by (simp add: empty_container_def token_name_def token_scope_def class_table_def numeral_2_eq_2
        resolve_dependency_def Let_def returns_def)
  have placeholder: "inst_args ?ctl ! 1 = None"
    by simp
  have broken: "paramtypes (?bad 0) = [] \<and>
      cbody (?bad 0) [] = Some (Error ''Error'' ''no database'') \<and>
      (if singleton_scoped (cscope (?bad 0))
       then singletons empty_container (cname (?bad 0)) = None else True)"
    by (simp add: class_table_def throws_def)
  have five: "Suc 4 = 5"
    by simp
  have "resolve (Suc 4) ?bad (TCtor 0) empty_container
      = (Inl (Error ''Error'' ''no database''), empty_container)"
    using claim [where depth = 4 and classes = ?bad and c = 0 and s = empty_container
                   and e = "Error ''Error'' ''no database''",
               THEN conjunct2, THEN conjunct2, THEN conjunct2, THEN conjunct2, THEN conjunct1]
      broken
    by blast
  then have thrown: "resolve 5 ?bad (TCtor 0) empty_container
      = (Inl (Error ''Error'' ''no database''), empty_container)"
    by (simp only: five)
  have loop: "paramtypes (?bad 1) = PCtor 1 # [] \<and>
      (if singleton_scoped (cscope (?bad 1))
       then singletons empty_container (cname (?bad 1)) = None else True)"
    by (simp add: class_table_def)
  have overflow: "resolve 5 ?bad (TCtor 1) empty_container = (Inl stack_overflow, empty_container)"
    using claim [where depth = 5 and classes = ?bad and c = 1 and s = empty_container
                   and rest = "[]",
               THEN conjunct2, THEN conjunct2, THEN conjunct2, THEN conjunct2, THEN conjunct2]
      loop
    by blast
  from missing acyclic quiet succeeds run placeholder thrown overflow show ?thesis by blast
qed


section \<open>Properties of the server loop\<close>

text \<open>An \<open>OPTIONS\<close> request is answered before any route is looked at.\<close>

lemma dispatch_preflight:
  assumes "req_url req = Some u" and "req_method req = ''OPTIONS''"
  shows "dispatch env app req w = (Inr (Preflight (corsHeaders app)), w)"
  using assms by (simp add: dispatch_def new_URL_def io_bind_def io_of_def io_return_def)

text \<open>
  A handler that returns a number: the handler of the route lets it through, and with
  CORS switched on the server loop fails on it.
\<close>

lemma dispatch_number_result:
  "dispatch fetch_env (bare_app [bare_route ''/x'' (\<lambda>args w. (Inr (Val (Num 5)), w))])
     (get_request ''/x'') ()
   = (Inl (Error ''TypeError''
             ''undefined is not an object (evaluating (response.headers.set))''), ())"
  by (simp add: dispatch_def matchRoute_def segments_def startsWithColon_def
      route_handler_def io_catch_def handler_try_def request_guards_def resolveGuards_def
      getGlobalGuards_def bare_app_def bare_route_def io_bind_def io_of_def guard_stage_def
      invoke_handler_def resolveParams_def new_URL_def get_request_def Let_def
      route_pipes_def extractPathParams_def fill_undefined_def
      io_return_def add_cors_headers_def corsHeaders_def swagger_paths_def)

end
